theory Spec2Isabelle
  imports Complex_Main "HOL-Library.Log_Nat"
begin

section \<open>JavaScript values\<close>

text \<open>
  The service in \<^verbatim>\<open>src/services/geminiService.ts\<close> moves values produced by
  \<^verbatim>\<open>JSON.parse\<close> between the AI backend, the browser's \<^verbatim>\<open>localStorage\<close> and the
  UI. Such a value is a JSON value. A number is a finite double, held as the rational
  that is its value; what the code computes from numbers is rounded as IEEE 754
  arithmetic rounds it (see the next section). A number that overflows to an infinity
  while it is parsed is outside the model.
  A string is the list of the bytes of its UTF-8 encoding, so that text outside ASCII
  is a string as well; a prefix of the text is a prefix of the bytes.
\<close>

datatype json =
    JNull
  | JBool bool
  | JNumber rat
  | JString string
  | JArray "json list"
  | JObject "(string \<times> json) list"

text \<open>The test \<^verbatim>\<open>if (cached)\<close>: JavaScript truthiness of a JSON value.\<close>

fun truthy :: "json \<Rightarrow> bool" where
  "truthy JNull = False"
| "truthy (JBool b) = b"
| "truthy (JNumber n) = (n \<noteq> 0)"
| "truthy (JString s) = (s \<noteq> [])"
| "truthy (JArray xs) = True"
| "truthy (JObject fs) = True"

text \<open>
  Reading a property of a parsed value; \<open>None\<close> is \<^verbatim>\<open>undefined\<close>. Only the
  properties \<^verbatim>\<open>data\<close> and \<^verbatim>\<open>timestamp\<close> are ever read, which no primitive and no
  array has.
\<close>

fun get_property :: "json \<Rightarrow> string \<Rightarrow> json option" where
  "get_property (JObject fs) k = map_of fs k"
| "get_property v k = None"

text \<open>
  What the service can see thrown: the SyntaxError of \<^verbatim>\<open>JSON.parse\<close>, the TypeError
  of destructuring \<^verbatim>\<open>null\<close>, the Error that \<^verbatim>\<open>getAI\<close> constructs, and the rejection
  of a backend call.
\<close>

datatype error =
    SyntaxError
  | TypeError
  | Error string
  | ApiError

section \<open>Double-precision numbers\<close>

text \<open>
  The result of an arithmetic operation on two doubles is the exact result rounded to
  the nearest double, a tie going to the double with the even significand, and to an
  infinity when the rounded magnitude reaches \<open>2 ^ 1024\<close>. A double has a significand
  of 53 bits; below \<open>2 ^ - 1022\<close> the doubles are the multiples of \<open>2 ^ - 1074\<close>. The two
  zeros are not told apart: no operation of the program distinguishes them. NaN is
  not a value of this type: where the program can meet it, it is an absent number.
\<close>

datatype double =
    Finite rat
  | PosInfinity
  | NegInfinity

text \<open>The integer nearest to a rational, a tie going to the even one.\<close>

definition round_half_even :: "rat \<Rightarrow> int" where
  "round_half_even y =
     (let f = \<lfloor>y\<rfloor>; d = y - of_int f
      in if d < 1 / 2 then f else if 1 / 2 < d then f + 1 else if even f then f else f + 1)"

text \<open>
  The binary exponent of a rational other than zero: the \<open>e\<close> with
  \<open>2 ^ e \<le> \<bar>x\<bar> < 2 ^ (e + 1)\<close>, found from the bit lengths of the numerator and the
  denominator.
\<close>

definition double_exponent :: "rat \<Rightarrow> int" where
  "double_exponent x =
     (let k = bitlen (fst (quotient_of \<bar>x\<bar>)) - bitlen (snd (quotient_of \<bar>x\<bar>))
      in if 2 powi k \<le> \<bar>x\<bar> then k else k - 1)"

definition round_to_double :: "rat \<Rightarrow> double" where
  "round_to_double x =
     (if x = 0 then Finite 0
      else
        (let e = max (double_exponent x) (- 1022);
             q = 2 powi (e - 52);
             y = of_int (round_half_even (x / q)) * q
         in if 2 powi 1024 \<le> \<bar>y\<bar> then (if 0 < x then PosInfinity else NegInfinity)
            else Finite y))"

text \<open>The operators \<^verbatim>\<open>-\<close> and \<^verbatim>\<open>*\<close> on two finite doubles, and \<^verbatim>\<open>>\<close>.\<close>

definition minus_double :: "rat \<Rightarrow> rat \<Rightarrow> double" where
  "minus_double a b = round_to_double (a - b)"

definition times_double :: "rat \<Rightarrow> rat \<Rightarrow> double" where
  "times_double a b = round_to_double (a * b)"

fun double_gt :: "double \<Rightarrow> rat \<Rightarrow> bool" where
  "double_gt (Finite y) c = (c < y)"
| "double_gt PosInfinity c = True"
| "double_gt NegInfinity c = False"

section \<open>Strings\<close>

text \<open>
  \<^verbatim>\<open>startsWith\<close>, and \<^verbatim>\<open>trim\<close>, which removes from both ends of a string the
  code points that ECMAScript calls white space or line terminators. They are listed
  here by their UTF-8 encodings: tab, line feed, vertical tab, form feed, carriage
  return, space, U+00A0, U+1680, U+2000 to U+200A, U+2028, U+2029, U+202F, U+205F,
  U+3000 and U+FEFF.
\<close>

definition startsWith :: "string \<Rightarrow> string \<Rightarrow> bool" where
  "startsWith s p = (take (length p) s = p)"

definition WhiteSpace :: "string list" where
  "WhiteSpace =
     [[CHR 0x09], [CHR 0x0A], [CHR 0x0B], [CHR 0x0C], [CHR 0x0D], [CHR 0x20],
      [CHR 0xC2, CHR 0xA0],
      [CHR 0xE1, CHR 0x9A, CHR 0x80],
      [CHR 0xE2, CHR 0x80, CHR 0x80], [CHR 0xE2, CHR 0x80, CHR 0x81],
      [CHR 0xE2, CHR 0x80, CHR 0x82], [CHR 0xE2, CHR 0x80, CHR 0x83],
      [CHR 0xE2, CHR 0x80, CHR 0x84], [CHR 0xE2, CHR 0x80, CHR 0x85],
      [CHR 0xE2, CHR 0x80, CHR 0x86], [CHR 0xE2, CHR 0x80, CHR 0x87],
      [CHR 0xE2, CHR 0x80, CHR 0x88], [CHR 0xE2, CHR 0x80, CHR 0x89],
      [CHR 0xE2, CHR 0x80, CHR 0x8A],
      [CHR 0xE2, CHR 0x80, CHR 0xA8], [CHR 0xE2, CHR 0x80, CHR 0xA9],
      [CHR 0xE2, CHR 0x80, CHR 0xAF],
      [CHR 0xE2, CHR 0x81, CHR 0x9F],
      [CHR 0xE3, CHR 0x80, CHR 0x80],
      [CHR 0xEF, CHR 0xBB, CHR 0xBF]]"

text \<open>Removing from the front of a string every leading occurrence of a token.\<close>

function strip_leading :: "string list \<Rightarrow> string \<Rightarrow> string" where
  "strip_leading tokens s =
     (case find (\<lambda>t. t \<noteq> [] \<and> startsWith s t) tokens of
        None \<Rightarrow> s
      | Some t \<Rightarrow> strip_leading tokens (drop (length t) s))"
  by pat_completeness auto
termination
proof (relation "measure (\<lambda>(tokens, s). length s)")
  show "wf (measure (\<lambda>(tokens, s). length s))"
    by simp
next
  fix tokens :: "string list" and s t :: string
  assume "find (\<lambda>t. t \<noteq> [] \<and> startsWith s t) tokens = Some t"
  then have "t \<noteq> []" and "take (length t) s = t"
    by (auto simp add: find_Some_iff startsWith_def)
  then have "s \<noteq> []"
    by auto
  with \<open>t \<noteq> []\<close> show "((tokens, drop (length t) s), (tokens, s)) \<in> measure (\<lambda>(tokens, s). length s)"
    by simp
qed

declare strip_leading.simps [simp del]

definition trimStart :: "string \<Rightarrow> string" where
  "trimStart s = strip_leading WhiteSpace s"

definition trimEnd :: "string \<Rightarrow> string" where
  "trimEnd s = rev (strip_leading (map rev WhiteSpace) (rev s))"

definition trim :: "string \<Rightarrow> string" where
  "trim s = trimEnd (trimStart s)"

section \<open>The platform and the world\<close>

text \<open>
  What the browser provides and the repository does not define is a parameter:
  \<^verbatim>\<open>JSON.parse\<close> (\<open>None\<close> when it throws), \<^verbatim>\<open>JSON.stringify\<close>, the coercion
  to a number of a string, array or object, whether \<^verbatim>\<open>localStorage.setItem\<close>
  throws (quota exceeded) for a given store, key and value, the Unicode case mapping
  \<^verbatim>\<open>toLowerCase\<close> of a text outside ASCII, and the decimal text of a number that
  is not an integer below \<open>2 ^ 53\<close> in magnitude.
\<close>

record platform =
  JSON_parse :: "string \<Rightarrow> json option"
  JSON_stringify :: "json \<Rightarrow> string"
  ToNumber_other :: "json \<Rightarrow> rat option"
  setItem_throws :: "(string \<rightharpoonup> string) \<Rightarrow> string \<Rightarrow> string \<Rightarrow> bool"
  String_toLowerCase :: "string \<Rightarrow> string"
  Number_toString_other :: "rat \<Rightarrow> string"

text \<open>
  The mutable state the service touches: whether \<^verbatim>\<open>window\<close> is defined, the
  contents of \<^verbatim>\<open>localStorage\<close>, the reading of \<^verbatim>\<open>Date.now()\<close> in
  milliseconds (an integer, and as a time value below \<open>2 ^ 53\<close> in magnitude, so a
  double), \<^verbatim>\<open>process.env.API_KEY\<close> and the lines written to the console.
\<close>

record world =
  window_defined :: bool
  localStorage :: "string \<rightharpoonup> string"
  now :: int
  API_KEY :: "string option"
  console :: "string list"

definition console_warn :: "string \<Rightarrow> world \<Rightarrow> world" where
  "console_warn msg w = w\<lparr>console := console w @ [msg]\<rparr>"

definition console_error :: "string \<Rightarrow> world \<Rightarrow> world" where
  "console_error msg w = w\<lparr>console := console w @ [msg]\<rparr>"

text \<open>
  \<^verbatim>\<open>toLowerCase\<close>. On a text of ASCII characters only it maps the letters A to Z to
  a to z and leaves every other character as it is; on any other text it is the case
  mapping of the platform.
\<close>

definition is_ascii :: "string \<Rightarrow> bool" where
  "is_ascii s = list_all (\<lambda>c. (of_char c :: nat) < 128) s"

definition toLowerCase_char :: "char \<Rightarrow> char" where
  "toLowerCase_char c =
     (if 65 \<le> (of_char c :: nat) \<and> (of_char c :: nat) \<le> 90
      then char_of ((of_char c :: nat) + 32) else c)"

definition toLowerCase :: "platform \<Rightarrow> string \<Rightarrow> string" where
  "toLowerCase P s = (if is_ascii s then map toLowerCase_char s else String_toLowerCase P s)"

section \<open>Cache configuration and helpers\<close>

definition CACHE_PREFIX :: string where
  "CACHE_PREFIX = ''movistore_cache_v1_''"

definition CACHE_TTL :: int where
  "CACHE_TTL = 1000 * 60 * 60"

text \<open>
  The operand \<^verbatim>\<open>timestamp\<close> of \<^verbatim>\<open>Date.now() - timestamp\<close> is coerced to a number;
  \<open>None\<close> is NaN, which \<^verbatim>\<open>undefined\<close> gives.
\<close>

fun ToNumber :: "platform \<Rightarrow> json option \<Rightarrow> rat option" where
  "ToNumber P None = None"
| "ToNumber P (Some JNull) = Some 0"
| "ToNumber P (Some (JBool b)) = Some (if b then 1 else 0)"
| "ToNumber P (Some (JNumber n)) = Some n"
| "ToNumber P (Some v) = ToNumber_other P v"

text \<open>
  \<^verbatim>\<open>getCachedData\<close>. The body of its \<^verbatim>\<open>try\<close> block comes first, with what it
  throws as a value: \<^verbatim>\<open>JSON.parse\<close> throws on a text that is not JSON, and
  destructuring \<^verbatim>\<open>{ data, timestamp }\<close> throws on \<^verbatim>\<open>null\<close> and reads two
  properties of anything else. The age \<^verbatim>\<open>Date.now() - timestamp\<close> is the difference
  of two doubles, rounded, and it is compared with the TTL; a comparison with NaN is
  false. Nothing has been written when either exception is thrown. The \<^verbatim>\<open>catch\<close>
  warns and returns \<^verbatim>\<open>null\<close>.
  The result \<open>None\<close> stands for \<^verbatim>\<open>null\<close> and for \<^verbatim>\<open>undefined\<close>, which the
  callers do not tell apart. \<^verbatim>\<open>getItem\<close> and \<^verbatim>\<open>removeItem\<close> are taken not to
  throw.
\<close>

definition getCachedData_try :: "platform \<Rightarrow> string \<Rightarrow> world \<Rightarrow> error + json option \<times> world" where
  "getCachedData_try P key w =
     (case localStorage w (CACHE_PREFIX @ key) of
        None \<Rightarrow> Inr (None, w)
      | Some item \<Rightarrow>
          if item = [] then Inr (None, w)
          else
            (case JSON_parse P item of
               None \<Rightarrow> Inl SyntaxError
             | Some JNull \<Rightarrow> Inl TypeError
             | Some v \<Rightarrow>
                 (let data = get_property v ''data'';
                      timestamp = get_property v ''timestamp''
                  in case ToNumber P timestamp of
                       None \<Rightarrow> Inr (data, w)
                     | Some t \<Rightarrow>
                         if double_gt (minus_double (of_int (now w)) t) (of_int CACHE_TTL)
                         then Inr (None, w\<lparr>localStorage :=
                                           (localStorage w)(CACHE_PREFIX @ key := None)\<rparr>)
                         else Inr (data, w))))"

definition getCachedData :: "platform \<Rightarrow> string \<Rightarrow> world \<Rightarrow> json option \<times> world" where
  "getCachedData P key w =
     (if \<not> window_defined w then (None, w)
      else
        (case getCachedData_try P key w of
           Inl e \<Rightarrow> (None, console_warn ''Error reading from cache'' w)
         | Inr result \<Rightarrow> result))"

text \<open>
  \<^verbatim>\<open>setCachedData\<close>: the envelope \<^verbatim>\<open>{ data, timestamp: Date.now() }\<close> is
  serialised and stored; a throwing \<^verbatim>\<open>setItem\<close> is caught and only warned about.
\<close>

definition envelope :: "json \<Rightarrow> int \<Rightarrow> json" where
  "envelope data t = JObject [(''data'', data), (''timestamp'', JNumber (of_int t))]"

definition setCachedData :: "platform \<Rightarrow> string \<Rightarrow> json \<Rightarrow> world \<Rightarrow> world" where
  "setCachedData P key data w =
     (if \<not> window_defined w then w
      else
        (let item = JSON_stringify P (envelope data (now w))
         in if setItem_throws P (localStorage w) (CACHE_PREFIX @ key) item
            then console_warn ''Error writing to cache'' w
            else w\<lparr>localStorage := (localStorage w)(CACHE_PREFIX @ key \<mapsto> item)\<rparr>))"

datatype client = GoogleGenAI string

text \<open>\<^verbatim>\<open>getAI\<close>: \<^verbatim>\<open>!apiKey\<close> holds for an undefined and for an empty key.\<close>

definition getAI :: "world \<Rightarrow> (error + client) \<times> world" where
  "getAI w =
     (case API_KEY w of
        None \<Rightarrow> (Inl (Error ''API Key is missing. Please set it in the environment.''),
                 console_error ''API Key missing'' w)
      | Some apiKey \<Rightarrow>
          if apiKey = []
          then (Inl (Error ''API Key is missing. Please set it in the environment.''),
                console_error ''API Key missing'' w)
          else (Inr (GoogleGenAI apiKey), w))"

section \<open>Requests to the AI backend\<close>

text \<open>
  \<^verbatim>\<open>movieSchema\<close>, the response schema sent with every request: an array of objects
  with nine properties, four of them required.
\<close>

datatype schema =
    INTEGER
  | NUMBER
  | STRING "string option"
  | ARRAY schema
  | OBJECT "(string \<times> schema) list" "string list"

definition movieSchema :: schema where
  "movieSchema =
     ARRAY (OBJECT
       [(''id'', INTEGER),
        (''title'', STRING None),
        (''overview'', STRING None),
        (''release_date'', STRING None),
        (''vote_average'', NUMBER),
        (''genres'', ARRAY (STRING None)),
        (''reason'', STRING (Some ''Why this movie fits the criteria'')),
        (''poster_path'', STRING (Some
           ''The specific TMDB poster filename (e.g. /1E5baAaEse26fej7uHcjOgEE2t2.jpg).'')),
        (''backdrop_path'', STRING (Some
           ''The specific TMDB backdrop filename (e.g. /2LL5lyC454CCXv05tf.jpg).''))]
       [''id'', ''title'', ''overview'', ''vote_average''])"

record request =
  model :: string
  contents :: string
  responseMimeType :: string
  responseSchema :: schema
  systemInstruction :: string

text \<open>
  A call of \<^verbatim>\<open>ai.models.generateContent\<close> is awaited: it takes some time and then
  either rejects or resolves to a response whose \<^verbatim>\<open>text\<close> is a string or undefined.
  The backend is a parameter of each fetch: what it would answer to a request made by a
  client during that fetch.
\<close>

datatype outcome =
    Rejected
  | Resolved "string option"

type_synonym backend = "client \<Rightarrow> request \<Rightarrow> int \<times> outcome"

text \<open>The quotation marks that a string literal of the logic cannot hold.\<close>

definition apostrophe :: string where
  "apostrophe = [CHR 0x27]"

definition quotation_mark :: string where
  "quotation_mark = [CHR 0x22]"

text \<open>
  The \<^verbatim>\<open>try\<close> block that the three fetch functions share word for word, apart
  from the request and the label of the logged error: first its body, which returns
  what it throws as a value together with the world at that moment, then the
  \<^verbatim>\<open>catch\<close>, which logs the error and returns the empty array. The trace of
  requests that reached the backend is returned with the result and the world.
  \<^verbatim>\<open>getAI\<close> is called inside the block, so what it throws is caught there as well.
  The result of a fetch is a sum so that an exception reaching the caller could be told
  from a returned value.
\<close>

definition response_text :: "string option \<Rightarrow> string" where
  "response_text text = (case text of None \<Rightarrow> ''[]'' | Some s \<Rightarrow> if s = [] then ''[]'' else s)"

definition try_body ::
  "platform \<Rightarrow> backend \<Rightarrow> string \<Rightarrow> request \<Rightarrow> world
    \<Rightarrow> error \<times> world \<times> request list + json \<times> world \<times> request list" where
  "try_body P B cacheKey req w =
     (case getAI w of
        (Inl e, w1) \<Rightarrow> Inl (e, w1, [])
      | (Inr ai, w1) \<Rightarrow>
          (case B ai req of
             (elapsed, Rejected) \<Rightarrow> Inl (ApiError, w1\<lparr>now := now w1 + elapsed\<rparr>, [req])
           | (elapsed, Resolved text) \<Rightarrow>
               (let w2 = w1\<lparr>now := now w1 + elapsed\<rparr>
                in case JSON_parse P (response_text text) of
                     None \<Rightarrow> Inl (SyntaxError, w2, [req])
                   | Some data \<Rightarrow> Inr (data, setCachedData P cacheKey data w2, [req]))))"

definition try_generate ::
  "platform \<Rightarrow> backend \<Rightarrow> string \<Rightarrow> request \<Rightarrow> string \<Rightarrow> world
    \<Rightarrow> (error + json) \<times> world \<times> request list" where
  "try_generate P B cacheKey req label w =
     (case try_body P B cacheKey req w of
        Inl (e, w', calls) \<Rightarrow> (Inr (JArray []), console_error label w', calls)
      | Inr (data, w', calls) \<Rightarrow> (Inr data, w', calls))"

text \<open>\<^verbatim>\<open>if (cached) return cached;\<close>\<close>

definition if_cached :: "json option \<Rightarrow> json option" where
  "if_cached cached = (case cached of None \<Rightarrow> None | Some v \<Rightarrow> if truthy v then Some v else None)"

subsection \<open>fetchTrendingMoviesAI\<close>

definition trending_request :: request where
  "trending_request =
     \<lparr> model = ''gemini-3-flash-preview'',
       contents = ''Generate a list of 10 currently trending or highly rated movies (mix of Action, Sci-Fi, Drama) released in the last 5 years. You MUST include valid TMDB poster_path and backdrop_path strings for each movie (e.g., starting with ''
         @ apostrophe @ ''/'' @ apostrophe @ ''). Provide JSON.'',
       responseMimeType = ''application/json'',
       responseSchema = movieSchema,
       systemInstruction = ''You are a movie database API. Return accurate movie data including real TMDB image paths. Do not hallucinate paths; if unknown, leave empty.'' \<rparr>"

definition fetchTrendingMoviesAI ::
  "platform \<Rightarrow> backend \<Rightarrow> world \<Rightarrow> (error + json) \<times> world \<times> request list" where
  "fetchTrendingMoviesAI P B w =
     (let cacheKey = ''trending_movies'';
          (cached, w1) = getCachedData P cacheKey w
      in case if_cached cached of
           Some v \<Rightarrow> (Inr v, w1, [])
         | None \<Rightarrow> try_generate P B cacheKey trending_request ''AI Fetch Error:'' w1)"

subsection \<open>fetchCategoryContent\<close>

definition category_prompt :: "string \<Rightarrow> string" where
  "category_prompt category =
     (if category = ''tv'' then
        ''Generate a list of 10 trending TV Shows and Series from the last 3 years. Ensure they are TV shows, not movies.''
      else if category = ''movies'' then
        ''Generate a list of 10 highly acclaimed Movies from various genres (Action, Drama, Comedy) released recently.''
      else if category = ''new'' then
        ''Generate a list of 10 New & Popular releases (Movies or TV) that are currently creating buzz globally.''
      else if category = ''web'' then
        ''Generate a list of 10 popular Web Series (Netflix Originals, Amazon Prime Originals, etc.) that are trending.''
      else ''Generate a list of 10 trending movies.'')"

definition category_request :: "string \<Rightarrow> request" where
  "category_request category =
     \<lparr> model = ''gemini-3-flash-preview'',
       contents = category_prompt category
         @ '' You MUST include valid TMDB poster_path and backdrop_path strings for each item.'',
       responseMimeType = ''application/json'',
       responseSchema = movieSchema,
       systemInstruction = ''You are a movie and TV database API. Return accurate data including real TMDB image paths. Do not hallucinate paths.'' \<rparr>"

definition fetchCategoryContent ::
  "platform \<Rightarrow> backend \<Rightarrow> string \<Rightarrow> world \<Rightarrow> (error + json) \<times> world \<times> request list" where
  "fetchCategoryContent P B category w =
     (let cacheKey = ''category_'' @ category;
          (cached, w1) = getCachedData P cacheKey w
      in case if_cached cached of
           Some v \<Rightarrow> (Inr v, w1, [])
         | None \<Rightarrow>
             try_generate P B cacheKey (category_request category)
               ''AI Category Fetch Error:'' w1)"


subsection \<open>searchMoviesAI\<close>

definition search_request :: "string \<Rightarrow> request" where
  "search_request query =
     \<lparr> model = ''gemini-3-flash-preview'',
       contents = ''User Query: '' @ quotation_mark @ query @ quotation_mark
         @ ''. Suggest 8 movies that match this query. It could be a mood, a genre, a specific actor, or a plot description. Include valid TMDB poster_path and backdrop_path strings.'',
       responseMimeType = ''application/json'',
       responseSchema = movieSchema,
       systemInstruction = ''You are an intelligent movie recommendation engine. Understand nuance (e.g., ''
         @ apostrophe @ ''sad movies'' @ apostrophe @ '' -> drama, ''
         @ apostrophe @ ''mind bending'' @ apostrophe @ '' -> thriller). Include a ''
         @ apostrophe @ ''reason'' @ apostrophe
         @ '' for the recommendation. Ensure image paths are accurate real TMDB paths.'' \<rparr>"

definition searchMoviesAI ::
  "platform \<Rightarrow> backend \<Rightarrow> string \<Rightarrow> world \<Rightarrow> (error + json) \<times> world \<times> request list" where
  "searchMoviesAI P B query w =
     (let cacheKey = ''search_'' @ trim (toLowerCase P query);
          (cached, w1) = getCachedData P cacheKey w
      in case if_cached cached of
           Some v \<Rightarrow> (Inr v, w1, [])
         | None \<Rightarrow> try_generate P B cacheKey (search_request query) ''AI Search Error:'' w1)"

subsection \<open>The three content kinds together\<close>

text \<open>
  A content kind with its parameters, and the fetch operation of a kind. The cache
  key, request and error label of a kind are collected from the three bodies above;
  \<open>fetch_read_through\<close> below shows that each operation is the same read-through
  procedure run on them.
\<close>

datatype kind =
    Trending
  | Category string
  | Search string

fun fetch :: "platform \<Rightarrow> backend \<Rightarrow> kind \<Rightarrow> world \<Rightarrow> (error + json) \<times> world \<times> request list" where
  "fetch P B Trending w = fetchTrendingMoviesAI P B w"
| "fetch P B (Category category) w = fetchCategoryContent P B category w"
| "fetch P B (Search query) w = searchMoviesAI P B query w"

fun cacheKey_of :: "platform \<Rightarrow> kind \<Rightarrow> string" where
  "cacheKey_of P Trending = ''trending_movies''"
| "cacheKey_of P (Category category) = ''category_'' @ category"
| "cacheKey_of P (Search query) = ''search_'' @ trim (toLowerCase P query)"

fun request_of :: "kind \<Rightarrow> request" where
  "request_of Trending = trending_request"
| "request_of (Category category) = category_request category"
| "request_of (Search query) = search_request query"

fun label_of :: "kind \<Rightarrow> string" where
  "label_of Trending = ''AI Fetch Error:''"
| "label_of (Category category) = ''AI Category Fetch Error:''"
| "label_of (Search query) = ''AI Search Error:''"

definition read_through ::
  "platform \<Rightarrow> backend \<Rightarrow> string \<Rightarrow> request \<Rightarrow> string \<Rightarrow> world
    \<Rightarrow> (error + json) \<times> world \<times> request list" where
  "read_through P B cacheKey req label w =
     (case if_cached (fst (getCachedData P cacheKey w)) of
        Some v \<Rightarrow> (Inr v, snd (getCachedData P cacheKey w), [])
      | None \<Rightarrow> try_generate P B cacheKey req label (snd (getCachedData P cacheKey w)))"

section \<open>The presentation layer\<close>

text \<open>
  The \<^verbatim>\<open>Movie\<close> interface. An optional property is an option, as is a nullable
  one: the components only test such a property for truthiness. The identifier and the
  rating are numbers, that is finite doubles.
\<close>

record Movie =
  movie_id :: rat
  title :: string
  overview :: string
  poster_path :: "string option"
  backdrop_path :: "string option"
  release_date :: string
  vote_average :: rat
  genre_ids :: "int list option"
  genres :: "string list option"
  reason :: "string option"

text \<open>
  The text that a template literal, or \<^verbatim>\<open>+\<close> with a string, inserts for a number.
  For an integer below \<open>2 ^ 53\<close> in magnitude it is the decimal digits of the integer
  with a minus sign before them when it is negative; for an infinity it is its name;
  otherwise it is what the platform prints.
\<close>

function nat_toString :: "nat \<Rightarrow> string" where
  "nat_toString n =
     (if n < 10 then [char_of (48 + n)]
      else nat_toString (n div 10) @ [char_of (48 + n mod 10)])"
  by pat_completeness auto
termination
  by (relation "measure (\<lambda>n. n)") auto

declare nat_toString.simps [simp del]

definition int_toString :: "int \<Rightarrow> string" where
  "int_toString i =
     (if i < 0 then CHR ''-'' # nat_toString (nat (- i)) else nat_toString (nat i))"

fun Number_toString :: "platform \<Rightarrow> double \<Rightarrow> string" where
  "Number_toString P (Finite x) =
     (if x = of_int \<lfloor>x\<rfloor> \<and> \<bar>x\<bar> < 2 ^ 53 then int_toString \<lfloor>x\<rfloor>
      else Number_toString_other P x)"
| "Number_toString P PosInfinity = ''Infinity''"
| "Number_toString P NegInfinity = ''-Infinity''"

text \<open>
  \<^verbatim>\<open>Math.round\<close>: the nearest integer, a tie going to the larger one. The nearest
  integer of a double is a double.
\<close>

fun Math_round :: "double \<Rightarrow> double" where
  "Math_round (Finite x) = Finite (of_int \<lfloor>x + 1 / 2\<rfloor>)"
| "Math_round PosInfinity = PosInfinity"
| "Math_round NegInfinity = NegInfinity"

subsection \<open>MovieCard\<close>




text \<open>The label \<^verbatim>\<open>{Math.round(movie.vote_average * 10)}% Match\<close>.\<close>

definition MovieCard_match :: "platform \<Rightarrow> Movie \<Rightarrow> string" where
  "MovieCard_match P movie =
     Number_toString P (Math_round (times_double (vote_average movie) 10)) @ ''% Match''"

subsection \<open>Hero\<close>




definition Hero_match :: "Movie \<Rightarrow> string" where
  "Hero_match movie = ''98% Match''"

subsection \<open>The watch history of the profile page\<close>


section \<open>Notions that the properties are stated with\<close>

subsection \<open>Queries that differ in case and outer white space\<close>








definition clean :: "string list \<Rightarrow> string \<Rightarrow> bool" where
  "clean tokens s = (find (\<lambda>u. u \<noteq> [] \<and> startsWith s u) tokens = None)"

subsection \<open>Decimal numerals\<close>

text \<open>
  The decimal numeral of an integer: its digits, the first of which is not 0 unless
  the numeral is \<^verbatim>\<open>0\<close>, read in base ten give the magnitude, and a minus sign comes
  before them exactly when the integer is negative. An integer has one such numeral.
\<close>

definition is_digit :: "char \<Rightarrow> bool" where
  "is_digit c = (48 \<le> (of_char c :: nat) \<and> (of_char c :: nat) \<le> 57)"

definition digits_value :: "string \<Rightarrow> nat" where
  "digits_value ds = foldl (\<lambda>acc c. 10 * acc + ((of_char c :: nat) - 48)) 0 ds"

definition is_decimal_of_nat :: "string \<Rightarrow> nat \<Rightarrow> bool" where
  "is_decimal_of_nat ds n =
     (ds \<noteq> [] \<and> list_all is_digit ds \<and> (hd ds = CHR ''0'' \<longrightarrow> ds = ''0'') \<and> digits_value ds = n)"

definition is_decimal_of :: "string \<Rightarrow> int \<Rightarrow> bool" where
  "is_decimal_of s i =
     (if i < 0 then s \<noteq> [] \<and> hd s = CHR ''-'' \<and> is_decimal_of_nat (tl s) (nat (- i))
      else is_decimal_of_nat s (nat i))"

section \<open>A platform and worlds for the examples\<close>

text \<open>
  The examples below run the service on a small platform: \<^verbatim>\<open>JSON.parse\<close> and
  \<^verbatim>\<open>JSON.stringify\<close> tabulated on the few texts and values that the examples
  meet (the only other text the examples parse is \<^verbatim>\<open>not json\<close>, which is not JSON),
  a store that never refuses a write, a case mapping that maps the letters A to Z and
  nothing else, and a backend that answers every request after 250 milliseconds with
  a given outcome. The examples print no number that is not an integer.
\<close>

definition example_parse :: "string \<Rightarrow> json option" where
  \<open>example_parse s =
     (if s = ''[]'' then Some (JArray [])
      else if s = ''{}'' then Some (JObject [])
      else if s = ''[{"id":603}]'' then Some (JArray [JObject [(''id'', JNumber 603)]])
      else if s = ''{"data":[{"id":603}],"timestamp":1000}''
        then Some (JObject [(''data'', JArray [JObject [(''id'', JNumber 603)]]),
                            (''timestamp'', JNumber 1000)])
      else if s = ''{"data":[{"id":603}],"timestamp":5000250}''
        then Some (JObject [(''data'', JArray [JObject [(''id'', JNumber 603)]]),
                            (''timestamp'', JNumber 5000250)])
      else if s = ''{"data":[],"timestamp":5000250}''
        then Some (JObject [(''data'', JArray []), (''timestamp'', JNumber 5000250)])
      else if s = ''{"data":{},"timestamp":5000250}''
        then Some (JObject [(''data'', JObject []), (''timestamp'', JNumber 5000250)])
      else None)\<close>

definition example_stringify :: "json \<Rightarrow> string" where
  \<open>example_stringify v =
     (if v = JObject [(''data'', JArray [JObject [(''id'', JNumber 603)]]),
                      (''timestamp'', JNumber 5000250)]
        then ''{"data":[{"id":603}],"timestamp":5000250}''
      else if v = JObject [(''data'', JArray []), (''timestamp'', JNumber 5000250)]
        then ''{"data":[],"timestamp":5000250}''
      else if v = JObject [(''data'', JObject []), (''timestamp'', JNumber 5000250)]
        then ''{"data":{},"timestamp":5000250}''
      else ''null'')\<close>

definition example_platform :: platform where
  "example_platform =
     \<lparr> JSON_parse = example_parse,
       JSON_stringify = example_stringify,
       ToNumber_other = (\<lambda>v. None),
       setItem_throws = (\<lambda>store key item. False),
       String_toLowerCase = map toLowerCase_char,
       Number_toString_other = (\<lambda>x. []) \<rparr>"

definition example_world :: "(string \<rightharpoonup> string) \<Rightarrow> int \<Rightarrow> string option \<Rightarrow> world" where
  "example_world store t apiKey =
     \<lparr> window_defined = True, localStorage = store, now = t, API_KEY = apiKey, console = [] \<rparr>"

definition example_backend :: "outcome \<Rightarrow> backend" where
  "example_backend answer = (\<lambda>ai req. (250, answer))"

definition example_entry :: string where
  \<open>example_entry = ''{"data":[{"id":603}],"timestamp":1000}''\<close>

text \<open>
  Worlds with a stored entry that is one second old, one that is older than an hour, an
  empty store, no API key, an entry that is not JSON, and an entry filed under the key
  \<^verbatim>\<open>trending\<close>.
\<close>

definition fresh_world :: world where
  "fresh_world = example_world [CACHE_PREFIX @ ''trending_movies'' \<mapsto> example_entry] 2000 (Some ''key'')"

definition stale_world :: world where
  "stale_world = example_world [CACHE_PREFIX @ ''trending_movies'' \<mapsto> example_entry] 5000000 (Some ''key'')"

definition empty_world :: world where
  "empty_world = example_world Map.empty 5000000 (Some ''key'')"

definition keyless_world :: world where
  "keyless_world = example_world Map.empty 5000000 None"


definition misfiled_world :: world where
  "misfiled_world = example_world [CACHE_PREFIX @ ''trending'' \<mapsto> example_entry] 2000 (Some ''key'')"

text \<open>
  A movie with a given identifier, poster path, backdrop path and rating. The doubles
  nearest to the decimal ratings 8.7, 8.45 and 12.3, as fractions.
\<close>

definition example_movie :: "rat \<Rightarrow> string option \<Rightarrow> string option \<Rightarrow> rat \<Rightarrow> Movie" where
  "example_movie ident poster backdrop rating =
     \<lparr> movie_id = ident, title = ''The Matrix'', overview = ''A hacker learns the truth.'',
       poster_path = poster, backdrop_path = backdrop, release_date = ''1999-03-31'',
       vote_average = rating, genre_ids = None, genres = Some [''Action'', ''Sci-Fi''],
       reason = None \<rparr>"

definition double_8_7 :: rat where
  "double_8_7 = 2448832297382707 / 281474976710656"

definition double_8_45 :: rat where
  "double_8_45 = 2378463553205043 / 281474976710656"

definition double_12_3 :: rat where
  "double_12_3 = 3462142213541069 / 281474976710656"

section \<open>Properties\<close>

text \<open>
  Each fetch is taken as one step: the model does not interleave two fetches that are in
  flight at the same time.
\<close>

subsection \<open>Rounding to a double\<close>

lemma pow2_nat: "0 \<le> k \<Longrightarrow> (2::rat) powi k = 2 ^ nat k"
  by (simp add: power_int_def)

lemma double_exponent_bounds:
  assumes "x \<noteq> 0"
  shows "2 powi double_exponent x \<le> \<bar>x\<bar>" and "\<bar>x\<bar> < 2 powi (double_exponent x + 1)"
proof -
  obtain a b where q: "quotient_of \<bar>x\<bar> = (a, b)"
    by (cases "quotient_of \<bar>x\<bar>")
  have b: "0 < b"
    using q by (rule quotient_of_denom_pos)
  have x: "\<bar>x\<bar> = of_int a / of_int b"
    using q by (rule quotient_of_div)
  have a: "0 < a"
  proof -
    have "0 < \<bar>x\<bar>"
      using assms by simp
    then have "0 < (of_int a :: rat) / of_int b"
      using x by simp
    with b show ?thesis
      by (simp add: zero_less_divide_iff)
  qed
  define la where "la = bitlen a"
  define lb where "lb = bitlen b"
  have la: "2 ^ nat (la - 1) \<le> a" "a < 2 ^ nat la"
    using bitlen_bounds [OF a] by (simp_all add: la_def)
  have lb: "2 ^ nat (lb - 1) \<le> b" "b < 2 ^ nat lb"
    using bitlen_bounds [OF b] by (simp_all add: lb_def)
  have la1: "1 \<le> la"
    using a by (simp add: la_def bitlen_alt_def)
  have lb1: "1 \<le> lb"
    using b by (simp add: lb_def bitlen_alt_def)
  have a_lo: "(2::rat) powi (la - 1) \<le> of_int a"
  proof -
    have "(of_int (2 ^ nat (la - 1)) :: rat) \<le> of_int a"
      using la(1) by (simp only: of_int_le_iff)
    then show ?thesis
      using la1 by (simp add: pow2_nat)
  qed
  have a_hi: "(of_int a :: rat) < 2 powi la"
  proof -
    have "(of_int a :: rat) < of_int (2 ^ nat la)"
      using la(2) by (simp only: of_int_less_iff)
    then show ?thesis
      using la1 by (simp add: pow2_nat)
  qed
  have b_lo: "(2::rat) powi (lb - 1) \<le> of_int b"
  proof -
    have "(of_int (2 ^ nat (lb - 1)) :: rat) \<le> of_int b"
      using lb(1) by (simp only: of_int_le_iff)
    then show ?thesis
      using lb1 by (simp add: pow2_nat)
  qed
  have b_hi: "(of_int b :: rat) < 2 powi lb"
  proof -
    have "(of_int b :: rat) < of_int (2 ^ nat lb)"
      using lb(2) by (simp only: of_int_less_iff)
    then show ?thesis
      using lb1 by (simp add: pow2_nat)
  qed
  have upper: "\<bar>x\<bar> < 2 powi (la - lb + 1)"
  proof -
    have "(of_int a :: rat) / of_int b < 2 powi la / 2 powi (lb - 1)"
      using a a_hi b_lo by (intro frac_less) simp_all
    also have "(2::rat) powi la / 2 powi (lb - 1) = 2 powi (la - (lb - 1))"
      by (simp add: power_int_diff)
    finally show ?thesis
      by (simp add: x algebra_simps)
  qed
  have lower: "2 powi (la - lb - 1) < \<bar>x\<bar>"
  proof -
    have "(2::rat) powi (la - 1) / 2 powi lb < of_int a / of_int b"
      using b a_lo b_hi by (intro frac_less2) simp_all
    moreover have "(2::rat) powi (la - 1) / 2 powi lb = 2 powi (la - 1 - lb)"
      by (simp add: power_int_diff)
    ultimately show ?thesis
      by (simp add: x algebra_simps)
  qed
  have e: "double_exponent x = (if 2 powi (la - lb) \<le> \<bar>x\<bar> then la - lb else la - lb - 1)"
    by (simp add: double_exponent_def q la_def lb_def)
  show "2 powi double_exponent x \<le> \<bar>x\<bar>"
    using lower by (simp add: e)
  show "\<bar>x\<bar> < 2 powi (double_exponent x + 1)"
    using upper by (auto simp add: e not_le)
qed

lemma round_half_even_of_int [simp]:
  "round_half_even (of_int m) = m"
  by (simp add: round_half_even_def)

lemma round_half_even_le:
  assumes "y \<le> of_int N"
  shows "round_half_even y \<le> N"
proof -
  have f: "\<lfloor>y\<rfloor> \<le> N"
    using assms by (simp add: floor_le_iff)
  show ?thesis
  proof (cases "\<lfloor>y\<rfloor> = N")
    case True
    then have "of_int N \<le> y"
      by (metis of_int_floor_le)
    with assms have "y = of_int N"
      by simp
    then show ?thesis
      by simp
  next
    case False
    with f have "\<lfloor>y\<rfloor> + 1 \<le> N"
      by simp
    then show ?thesis
      using f by (simp add: round_half_even_def Let_def)
  qed
qed

lemma round_half_even_ge:
  assumes "of_int N \<le> y"
  shows "N \<le> round_half_even y"
proof -
  have "N \<le> \<lfloor>y\<rfloor>"
    using assms by (simp add: le_floor_iff)
  then show ?thesis
    by (simp add: round_half_even_def Let_def)
qed

text \<open>An integer below \<open>2 ^ 53\<close> in magnitude is a double.\<close>

lemma round_to_double_of_int:
  assumes "\<bar>n\<bar> < 2 ^ 53"
  shows "round_to_double (of_int n) = Finite (of_int n)"
proof (cases "n = 0")
  case True
  then show ?thesis
    by (simp add: round_to_double_def)
next
  case False
  define x :: rat where "x = of_int n"
  define e where "e = double_exponent x"
  have x0: "x \<noteq> 0"
    using False by (simp add: x_def)
  have lo: "2 powi e \<le> \<bar>x\<bar>" and hi: "\<bar>x\<bar> < 2 powi (e + 1)"
    using double_exponent_bounds [OF x0] by (simp_all add: e_def)
  have ge1: "1 \<le> \<bar>x\<bar>"
    using False by (simp add: x_def flip: of_int_abs)
  have lt53: "\<bar>x\<bar> < 2 powi 53"
  proof -
    have "(of_int \<bar>n\<bar> :: rat) < of_int (2 ^ 53)"
      using assms by (simp only: of_int_less_iff)
    then show ?thesis
      by (simp add: x_def)
  qed
  have e0: "0 \<le> e"
  proof -
    have one: "1 < (2::rat) powi (e + 1)"
      using ge1 hi by simp
    show ?thesis
    proof (rule ccontr)
      assume "\<not> 0 \<le> e"
      then have "e + 1 \<le> 0"
        by simp
      then have "(2::rat) powi (e + 1) \<le> 2 powi 0"
        by (intro power_int_increasing) simp_all
      with one show False
        by simp
    qed
  qed
  have e52: "e \<le> 52"
  proof -
    have "(2::rat) powi e < 2 powi 53"
      using lo lt53 by simp
    then have "e < 53"
      by (intro power_int_le_imp_less_exp [of "2::rat"]) simp_all
    then show ?thesis
      by simp
  qed
  define j where "j = nat (52 - e)"
  have q: "(2::rat) powi (e - 52) = 1 / 2 ^ j"
  proof -
    have "(2::rat) powi (e - 52) = 2 powi (- int j)"
      using e52 by (simp add: j_def)
    then show ?thesis
      by (simp add: power_int_minus_divide)
  qed
  have scaled: "x / (2 powi (e - 52)) = of_int (n * 2 ^ j)"
    by (simp add: q x_def)
  have y: "of_int (round_half_even (x / (2 powi (e - 52)))) * (2::rat) powi (e - 52) = x"
    unfolding scaled round_half_even_of_int by (simp add: q x_def)
  have small: "\<not> 2 powi 1024 \<le> \<bar>x\<bar>"
  proof -
    have "(2::rat) powi 53 \<le> 2 powi 1024"
      by (intro power_int_increasing) simp_all
    with lt53 show ?thesis
      by simp
  qed
  have "round_to_double x = Finite x"
    using x0 e0 small y by (simp add: round_to_double_def Let_def e_def [symmetric] max_def)
  then show ?thesis
    by (simp add: x_def)
qed

text \<open>Rounding does not carry a number past an integer that is a double.\<close>

lemma round_to_double_le_int:
  assumes T: "0 \<le> T" "T < 2 ^ 53" and x: "x \<le> of_int T"
  shows "\<not> double_gt (round_to_double x) (of_int T)"
proof -
  consider "x = 0" | "x < 0" | "0 < x"
    by linarith
  then show ?thesis
  proof cases
    case 1
    with T show ?thesis
      by (simp add: round_to_double_def)
  next
    case 2
    define q :: rat where "q = 2 powi (max (double_exponent x) (- 1022) - 52)"
    have q: "0 < q"
      by (simp add: q_def)
    have "x / q \<le> of_int 0"
      using 2 q by (simp add: divide_le_0_iff)
    then have "round_half_even (x / q) \<le> 0"
      by (rule round_half_even_le)
    then have "of_int (round_half_even (x / q)) * q \<le> 0"
      using q by (simp add: mult_le_0_iff)
    with 2 T show ?thesis
      by (auto simp add: round_to_double_def Let_def q_def [symmetric])
  next
    case 3
    define e where "e = max (double_exponent x) (- 1022)"
    have x0: "x \<noteq> 0"
      using 3 by simp
    have lo: "2 powi double_exponent x \<le> x"
      using double_exponent_bounds(1) [OF x0] 3 by simp
    have "x < 2 powi 53"
    proof -
      have "(of_int T :: rat) < of_int (2 ^ 53)"
        using T(2) by (simp only: of_int_less_iff)
      with x show ?thesis
        by simp
    qed
    with lo have "(2::rat) powi double_exponent x < 2 powi 53"
      by simp
    then have "double_exponent x < 53"
      by (intro power_int_le_imp_less_exp [of "2::rat"]) simp_all
    then have e52: "e \<le> 52"
      by (simp add: e_def)
    define j where "j = nat (52 - e)"
    have q: "(2::rat) powi (e - 52) = 1 / 2 ^ j"
    proof -
      have "(2::rat) powi (e - 52) = 2 powi (- int j)"
        using e52 by (simp add: j_def)
      then show ?thesis
        by (simp add: power_int_minus_divide)
    qed
    define r where "r = round_half_even (x / (2 powi (e - 52)))"
    have "x / (2 powi (e - 52)) \<le> of_int (T * 2 ^ j)"
      using x by (simp add: q mult_right_mono)
    then have upper: "r \<le> T * 2 ^ j"
      unfolding r_def by (rule round_half_even_le)
    have "of_int 0 \<le> x / (2 powi (e - 52))"
      using 3 by (simp add: q)
    then have lower: "0 \<le> r"
      unfolding r_def by (rule round_half_even_ge)
    define y :: rat where "y = of_int r * 2 powi (e - 52)"
    have y_le: "y \<le> of_int T"
    proof -
      have "(of_int r :: rat) \<le> of_int (T * 2 ^ j)"
        using upper by (simp only: of_int_le_iff)
      then have "(of_int r :: rat) \<le> of_int T * 2 ^ j"
        by simp
      then have "(of_int r :: rat) / 2 ^ j \<le> of_int T"
        by (simp add: pos_divide_le_eq)
      then show ?thesis
        by (simp add: y_def q)
    qed
    have y_ge: "0 \<le> y"
      using lower by (simp add: y_def)
    have "round_to_double x = (if 2 powi 1024 \<le> \<bar>y\<bar> then PosInfinity else Finite y)"
      using 3 by (simp add: round_to_double_def Let_def e_def [symmetric] r_def [symmetric] y_def)
    moreover have "\<not> 2 powi 1024 \<le> \<bar>y\<bar>"
    proof -
      have "(of_int T :: rat) < of_int (2 ^ 53)"
        using T(2) by (simp only: of_int_less_iff)
      moreover have "(2::rat) powi 53 \<le> 2 powi 1024"
        by (intro power_int_increasing) simp_all
      ultimately show ?thesis
        using y_le y_ge by simp
    qed
    ultimately show ?thesis
      using y_le by simp
  qed
qed

text \<open>
  An age that is at most the TTL before rounding is not above it after rounding, and
  the age of an entry with an integer timestamp is exact.
\<close>

lemma not_expired:
  assumes "a - t \<le> of_int CACHE_TTL"
  shows "\<not> double_gt (minus_double a t) (of_int CACHE_TTL)"
proof -
  have "0 \<le> CACHE_TTL" and "CACHE_TTL < 2 ^ 53"
    by (simp_all add: CACHE_TTL_def)
  from round_to_double_le_int [OF this assms] show ?thesis
    by (simp add: minus_double_def)
qed

lemma minus_double_int:
  assumes "\<bar>a - b\<bar> < 2 ^ 53"
  shows "minus_double (of_int a) (of_int b) = Finite (of_int (a - b))"
  using round_to_double_of_int [OF assms] by (simp add: minus_double_def)

lemma expired_integer_timestamp:
  assumes "\<bar>a - b\<bar> < 2 ^ 53" and "CACHE_TTL < a - b"
  shows "double_gt (minus_double (of_int a) (of_int b)) (of_int CACHE_TTL)"
proof -
  have "(of_int CACHE_TTL :: rat) < of_int (a - b)"
    using assms(2) by (simp only: of_int_less_iff)
  then show ?thesis
    by (simp add: minus_double_int [OF assms(1)])
qed

text \<open>Computing the double nearest to a number from its binary exponent.\<close>

lemma double_exponent_unique:
  assumes "2 powi e \<le> \<bar>x\<bar>" and "\<bar>x\<bar> < 2 powi (e + 1)"
  shows "double_exponent x = e"
proof -
  have x0: "x \<noteq> 0"
  proof
    assume "x = 0"
    with assms(1) have "(2::rat) powi e \<le> 0"
      by simp
    moreover have "0 < (2::rat) powi e"
      by simp
    ultimately show False
      by simp
  qed
  define d where "d = double_exponent x"
  have lo: "2 powi d \<le> \<bar>x\<bar>" and hi: "\<bar>x\<bar> < 2 powi (d + 1)"
    using double_exponent_bounds [OF x0] by (simp_all add: d_def)
  have less: "m < n + 1" if "(2::rat) powi m < 2 powi (n + 1)" for m n :: int
  proof (rule ccontr)
    assume "\<not> m < n + 1"
    then have "n + 1 \<le> m"
      by simp
    then have "(2::rat) powi (n + 1) \<le> 2 powi m"
      by (intro power_int_increasing) simp_all
    with that show False
      by simp
  qed
  have "(2::rat) powi d < 2 powi (e + 1)"
    using lo assms(2) by simp
  then have "d < e + 1"
    by (rule less)
  moreover have "(2::rat) powi e < 2 powi (d + 1)"
    using assms(1) hi by simp
  then have "e < d + 1"
    by (rule less)
  ultimately show ?thesis
    by (simp add: d_def)
qed

lemma round_to_double_eval:
  assumes lo: "2 powi e \<le> \<bar>x\<bar>" and hi: "\<bar>x\<bar> < 2 powi (e + 1)"
    and e: "- 1022 \<le> e" "e \<le> 1022"
  shows "round_to_double x = Finite (of_int (round_half_even (x / 2 powi (e - 52))) * 2 powi (e - 52))"
proof -
  define q :: rat where "q = 2 powi (e - 52)"
  define r where "r = round_half_even (x / q)"
  have q0: "0 < q"
    by (simp add: q_def)
  have x0: "x \<noteq> 0"
    using lo by (metis abs_zero not_le zero_less_power_int zero_less_numeral)
  have split: "(2::rat) powi (e + 1) = of_int (2 ^ 53) * q"
  proof -
    have "e + 1 = 53 + (e - 52)"
      by simp
    then have "(2::rat) powi (e + 1) = 2 powi (53 + (e - 52))"
      by (simp only:)
    also have "\<dots> = 2 powi 53 * 2 powi (e - 52)"
      by (rule power_int_add) simp
    finally show ?thesis
      by (simp add: q_def)
  qed
  have bound: "\<bar>x / q\<bar> \<le> of_int (2 ^ 53)"
  proof -
    have "\<bar>x\<bar> \<le> of_int (2 ^ 53) * q"
      using hi split by simp
    then have "\<bar>x\<bar> / q \<le> of_int (2 ^ 53)"
      using q0 by (simp add: pos_divide_le_eq)
    with q0 show ?thesis
      by simp
  qed
  from bound have "x / q \<le> of_int (2 ^ 53)"
    by (rule abs_le_D1)
  then have up: "r \<le> 2 ^ 53"
    unfolding r_def by (rule round_half_even_le)
  from bound have "- (x / q) \<le> of_int (2 ^ 53)"
    by (rule abs_le_D2)
  then have "of_int (- (2 ^ 53)) \<le> x / q"
    by simp
  then have "- (2 ^ 53) \<le> r"
    unfolding r_def by (rule round_half_even_ge)
  with up have "\<bar>r\<bar> \<le> 2 ^ 53"
    by simp
  then have "(of_int \<bar>r\<bar> :: rat) \<le> of_int (2 ^ 53)"
    by (simp only: of_int_le_iff)
  then have "\<bar>of_int r :: rat\<bar> * q \<le> of_int (2 ^ 53) * q"
    using q0 by (intro mult_right_mono) simp_all
  then have y: "\<bar>of_int r * q\<bar> \<le> 2 powi (e + 1)"
    using q0 by (simp add: split abs_mult)
  have "(2::rat) powi (e + 1) \<le> 2 powi 1023"
    using e(2) by (intro power_int_increasing) simp_all
  moreover have "(2::rat) powi 1023 < 2 powi 1024"
    by (intro power_int_strict_increasing) simp_all
  ultimately have small: "\<not> 2 powi 1024 \<le> \<bar>of_int r * q\<bar>"
    using y by simp
  have "double_exponent x = e"
    by (rule double_exponent_unique [OF lo hi])
  then have "max (double_exponent x) (- 1022) = e"
    using e(1) by simp
  then show ?thesis
    using x0 small by (simp add: round_to_double_def Let_def q_def [symmetric] r_def [symmetric])
qed

lemma example_doubles:
  "round_to_double (87 / 10) = Finite double_8_7"
  "round_to_double (845 / 100) = Finite double_8_45"
  "round_to_double (123 / 10) = Finite double_12_3"
  "times_double double_8_7 10 = Finite 87"
  "times_double double_8_45 10 = Finite (169 / 2)"
  "times_double double_12_3 10 = Finite 123"
  "times_double (1 / 4) 10 = Finite (5 / 2)"
  "times_double (- 1) 10 = Finite (- 10)"
proof -
  have ev: "round_to_double x = Finite y"
    if "2 powi e \<le> \<bar>x\<bar> \<and> \<bar>x\<bar> < 2 powi (e + 1) \<and> - 1022 \<le> e \<and> e \<le> 1022
        \<and> of_int (round_half_even (x / 2 powi (e - 52))) * 2 powi (e - 52) = y" for x y e
    using that round_to_double_eval [of e x] by simp
  show "round_to_double (87 / 10) = Finite double_8_7"
    by (rule ev [where e = 3]) code_simp
  show "round_to_double (845 / 100) = Finite double_8_45"
    by (rule ev [where e = 3]) code_simp
  show "round_to_double (123 / 10) = Finite double_12_3"
    by (rule ev [where e = 3]) code_simp
  show "times_double double_8_7 10 = Finite 87"
    unfolding times_double_def by (rule ev [where e = 6]) code_simp
  show "times_double double_8_45 10 = Finite (169 / 2)"
    unfolding times_double_def by (rule ev [where e = 6]) code_simp
  show "times_double double_12_3 10 = Finite 123"
    unfolding times_double_def by (rule ev [where e = 6]) code_simp
  show "times_double (1 / 4) 10 = Finite (5 / 2)"
    unfolding times_double_def by (rule ev [where e = 1]) code_simp
  show "times_double (- 1) 10 = Finite (- 10)"
    unfolding times_double_def by (rule ev [where e = 3]) code_simp
qed

subsection \<open>The three fetch operations are one read-through procedure\<close>

lemma fetch_read_through:
  "fetch P B k w = read_through P B (cacheKey_of P k) (request_of k) (label_of k) w"
  by (cases k)
     (simp_all add: fetchTrendingMoviesAI_def fetchCategoryContent_def searchMoviesAI_def
        read_through_def Let_def case_prod_beta)

lemma read_through_miss:
  assumes "if_cached (fst (getCachedData P key w)) = None"
  shows "read_through P B key req label w = try_generate P B key req label (snd (getCachedData P key w))"
  using assms by (simp add: read_through_def)

subsection \<open>Reading the cache\<close>

lemma getCachedData_fresh:
  assumes "window_defined w"
    and "localStorage w (CACHE_PREFIX @ key) = Some item" and "item \<noteq> []"
    and "JSON_parse P item = Some (JObject fs)"
    and "map_of fs ''timestamp'' = Some (JNumber t)"
    and "of_int (now w) - t \<le> of_int CACHE_TTL"
  shows "getCachedData P key w = (map_of fs ''data'', w)"
  using assms(1-5) not_expired [OF assms(6)]
  by (simp add: getCachedData_def getCachedData_try_def)

lemma getCachedData_stale:
  assumes "window_defined w"
    and "localStorage w (CACHE_PREFIX @ key) = Some item" and "item \<noteq> []"
    and "JSON_parse P item = Some (JObject fs)"
    and "map_of fs ''timestamp'' = Some (JNumber t)"
    and "double_gt (minus_double (of_int (now w)) t) (of_int CACHE_TTL)"
  shows "getCachedData P key w =
           (None, w\<lparr>localStorage := (localStorage w)(CACHE_PREFIX @ key := None)\<rparr>)"
  using assms by (simp add: getCachedData_def getCachedData_try_def)


lemma getCachedData_absent:
  assumes "localStorage w (CACHE_PREFIX @ key) = None"
  shows "getCachedData P key w = (None, w)"
  using assms by (simp add: getCachedData_def getCachedData_try_def)

lemma getCachedData_keeps_config:
  "API_KEY (snd (getCachedData P key w)) = API_KEY w"
  "window_defined (snd (getCachedData P key w)) = window_defined w"
  "now (snd (getCachedData P key w)) = now w"
  by (simp_all add: getCachedData_def getCachedData_try_def Let_def console_warn_def split: option.splits json.splits)

lemma getCachedData_miss_persists:
  assumes "if_cached (fst (getCachedData P key w)) = None"
    and "window_defined w2 = window_defined w"
    and "localStorage w2 (CACHE_PREFIX @ key) = localStorage (snd (getCachedData P key w)) (CACHE_PREFIX @ key)"
  shows "if_cached (fst (getCachedData P key w2)) = None"
  using assms
  by (auto simp add: getCachedData_def getCachedData_try_def Let_def console_warn_def if_cached_def split: option.splits json.splits if_splits)

lemma if_cached_None [simp]: "if_cached None = None"
  by (simp add: if_cached_def)

lemma read_through_fresh:
  assumes "window_defined w"
    and "localStorage w (CACHE_PREFIX @ key) = Some item" and "item \<noteq> []"
    and "JSON_parse P item = Some (JObject fs)"
    and "map_of fs ''data'' = Some (JArray xs)"
    and "map_of fs ''timestamp'' = Some (JNumber t)"
    and "of_int (now w) - t \<le> of_int CACHE_TTL"
  shows "read_through P B key req label w = (Inr (JArray xs), w, [])"
  using getCachedData_fresh [OF assms(1,2,3,4,6,7)] assms(5)
  by (simp add: read_through_def if_cached_def)

subsection \<open>Asking the backend and writing the cache\<close>

lemma try_generate_no_key:
  assumes "API_KEY w = None \<or> API_KEY w = Some []"
  shows "try_generate P B cacheKey req label w =
           (Inr (JArray []), console_error label (console_error ''API Key missing'' w), [])"
  using assms by (auto simp add: try_generate_def try_body_def getAI_def)

lemma try_generate_rejected:
  assumes "API_KEY w = Some apiKey" and "apiKey \<noteq> []"
    and "B (GoogleGenAI apiKey) req = (elapsed, Rejected)"
  shows "try_generate P B cacheKey req label w =
           (Inr (JArray []), console_error label (w\<lparr>now := now w + elapsed\<rparr>), [req])"
  using assms by (simp add: try_generate_def try_body_def getAI_def)

lemma try_generate_unparseable:
  assumes "API_KEY w = Some apiKey" and "apiKey \<noteq> []"
    and "B (GoogleGenAI apiKey) req = (elapsed, Resolved text)"
    and "JSON_parse P (response_text text) = None"
  shows "try_generate P B cacheKey req label w =
           (Inr (JArray []), console_error label (w\<lparr>now := now w + elapsed\<rparr>), [req])"
  using assms by (simp add: try_generate_def try_body_def getAI_def)

lemma try_generate_parsed:
  assumes "API_KEY w = Some apiKey" and "apiKey \<noteq> []"
    and "B (GoogleGenAI apiKey) req = (elapsed, Resolved text)"
    and "JSON_parse P (response_text text) = Some data"
  shows "try_generate P B cacheKey req label w =
           (Inr data, setCachedData P cacheKey data (w\<lparr>now := now w + elapsed\<rparr>), [req])"
  using assms by (simp add: try_generate_def try_body_def getAI_def)

lemma try_generate_calls:
  assumes "API_KEY w = Some apiKey" and "apiKey \<noteq> []"
  shows "snd (snd (try_generate P B cacheKey req label w)) = [req]"
  using assms
  by (simp add: try_generate_def try_body_def getAI_def Let_def split: prod.splits outcome.splits option.splits)

lemma setCachedData_stored:
  assumes "window_defined w"
    and "\<not> setItem_throws P (localStorage w) (CACHE_PREFIX @ key) (JSON_stringify P (envelope data (now w)))"
  shows "setCachedData P key data w =
           w\<lparr>localStorage := (localStorage w)(CACHE_PREFIX @ key \<mapsto> JSON_stringify P (envelope data (now w)))\<rparr>"
  using assms by (simp add: setCachedData_def)

lemma read_through_failure:
  assumes miss: "if_cached (fst (getCachedData P key w)) = None"
    and key: "API_KEY w = Some apiKey" and nonempty: "apiKey \<noteq> []"
    and answer: "B (GoogleGenAI apiKey) req = (elapsed, answer)"
    and failed: "answer = Rejected
        \<or> (\<exists>reply. answer = Resolved reply \<and> JSON_parse P (response_text reply) = None)"
  shows "read_through P B key req label w =
           (Inr (JArray []),
            console_error label ((snd (getCachedData P key w))\<lparr>now := now w + elapsed\<rparr>),
            [req])"
proof -
  let ?w1 = "snd (getCachedData P key w)"
  have k1: "API_KEY ?w1 = Some apiKey"
    using key by (simp add: getCachedData_keeps_config)
  have n1: "now ?w1 = now w"
    by (simp add: getCachedData_keeps_config)
  from failed show ?thesis
  proof
    assume "answer = Rejected"
    with answer have "B (GoogleGenAI apiKey) req = (elapsed, Rejected)"
      by simp
    from try_generate_rejected [where B = B and w = ?w1, OF k1 nonempty this]
    show ?thesis
      by (simp add: read_through_miss [OF miss] n1)
  next
    assume "\<exists>reply. answer = Resolved reply \<and> JSON_parse P (response_text reply) = None"
    then obtain reply where r: "answer = Resolved reply"
      and p: "JSON_parse P (response_text reply) = None"
      by blast
    from answer r have "B (GoogleGenAI apiKey) req = (elapsed, Resolved reply)"
      by simp
    from try_generate_unparseable [where B = B and w = ?w1, OF k1 nonempty this p]
    show ?thesis
      by (simp add: read_through_miss [OF miss] n1)
  qed
qed

lemma read_through_stores:
  assumes win: "window_defined w"
    and miss: "if_cached (fst (getCachedData P key w)) = None"
    and key: "API_KEY w = Some apiKey" and nonempty: "apiKey \<noteq> []"
    and answer: "B (GoogleGenAI apiKey) req = (elapsed, Resolved reply)"
    and parsed: "JSON_parse P (response_text reply) = Some payload"
    and accepted: "\<not> setItem_throws P (localStorage (snd (getCachedData P key w)))
        (CACHE_PREFIX @ key) (JSON_stringify P (envelope payload (now w + elapsed)))"
  shows "read_through P B key req label w =
           (Inr payload,
            (snd (getCachedData P key w))
              \<lparr>now := now w + elapsed,
               localStorage := (localStorage (snd (getCachedData P key w)))
                 (CACHE_PREFIX @ key \<mapsto> JSON_stringify P (envelope payload (now w + elapsed)))\<rparr>,
            [req])"
proof -
  let ?w1 = "snd (getCachedData P key w)"
  let ?w2 = "?w1\<lparr>now := now ?w1 + elapsed\<rparr>"
  have k1: "API_KEY ?w1 = Some apiKey"
    using key by (simp add: getCachedData_keeps_config)
  have n1: "now ?w1 = now w"
    by (simp add: getCachedData_keeps_config)
  have win2: "window_defined ?w2"
    using win by (simp add: getCachedData_keeps_config)
  have ok: "\<not> setItem_throws P (localStorage ?w2) (CACHE_PREFIX @ key)
      (JSON_stringify P (envelope payload (now ?w2)))"
    using accepted by (simp add: n1)
  have "read_through P B key req label w = (Inr payload, setCachedData P key payload ?w2, [req])"
    unfolding read_through_miss [OF miss]
    by (rule try_generate_parsed [where B = B and w = ?w1, OF k1 nonempty answer parsed])
  moreover have "setCachedData P key payload ?w2 =
      ?w2\<lparr>localStorage := (localStorage ?w2)
        (CACHE_PREFIX @ key \<mapsto> JSON_stringify P (envelope payload (now ?w2)))\<rparr>"
    by (rule setCachedData_stored [OF win2 ok])
  ultimately show ?thesis
    by (simp add: n1)
qed

subsection \<open>Evaluating the examples\<close>

lemma example_world_simps:
  "window_defined (example_world store t apiKey) = True"
  "localStorage (example_world store t apiKey) = store"
  "now (example_world store t apiKey) = t"
  "API_KEY (example_world store t apiKey) = apiKey"
  "console (example_world store t apiKey) = []"
  by (simp_all add: example_world_def)

lemma example_platform_simps:
  "JSON_parse example_platform = example_parse"
  "JSON_stringify example_platform = example_stringify"
  "ToNumber_other example_platform v = None"
  "setItem_throws example_platform store key item = False"
  "String_toLowerCase example_platform = map toLowerCase_char"
  by (simp_all add: example_platform_def)

lemma example_parse_entry:
  "example_parse example_entry =
     Some (JObject [(''data'', JArray [JObject [(''id'', JNumber 603)]]), (''timestamp'', JNumber 1000)])"
  by (simp add: example_parse_def example_entry_def)

lemma example_parse_simps:
  \<open>example_parse ''[]'' = Some (JArray [])\<close>
  \<open>example_parse ''{}'' = Some (JObject [])\<close>
  \<open>example_parse ''not json'' = None\<close>
  \<open>example_parse ''[{"id":603}]'' = Some (JArray [JObject [(''id'', JNumber 603)]])\<close>
  \<open>example_parse ''{"data":[],"timestamp":5000250}'' = Some (envelope (JArray []) 5000250)\<close>
  by (simp_all add: example_parse_def envelope_def)

lemma example_stringify_simps:
  \<open>example_stringify (envelope (JArray [JObject [(''id'', JNumber 603)]]) 5000250)
     = ''{"data":[{"id":603}],"timestamp":5000250}''\<close>
  \<open>example_stringify (envelope (JArray []) 5000250) = ''{"data":[],"timestamp":5000250}''\<close>
  \<open>example_stringify (envelope (JObject []) 5000250) = ''{"data":{},"timestamp":5000250}''\<close>
  by (simp_all add: example_stringify_def envelope_def)

lemma example_stringify_written:
  \<open>example_stringify (JObject [(''data'', JArray [JObject [(''id'', JNumber 603)]]),
       (''timestamp'', JNumber 5000250)]) = ''{"data":[{"id":603}],"timestamp":5000250}''\<close>
  by (simp add: example_stringify_def)

lemma example_backend_simp:
  "example_backend answer ai req = (250, answer)"
  by (simp add: example_backend_def)

lemma response_text_simps:
  "response_text None = ''[]''"
  "response_text (Some []) = ''[]''"
  "s \<noteq> [] \<Longrightarrow> response_text (Some s) = s"
  by (simp_all add: response_text_def)

lemmas example_simps =
  example_world_simps example_platform_simps example_parse_simps example_stringify_simps
  example_backend_simp response_text_simps

lemma empty_world_simps:
  "window_defined empty_world = True"
  "localStorage empty_world = Map.empty"
  "now empty_world = 5000000"
  "API_KEY empty_world = Some ''key''"
  "console empty_world = []"
  by (simp_all add: empty_world_def example_world_def)

lemma empty_world_read:
  "getCachedData P key empty_world = (None, empty_world)"
  by (simp add: getCachedData_absent empty_world_simps)

lemma keyless_world_read:
  "getCachedData P key keyless_world = (None, keyless_world)"
  by (simp add: getCachedData_absent keyless_world_def example_world_def)

lemma search_key_example:
  "cacheKey_of example_platform (Search ''Sad Movies '') = ''search_sad movies''"
  by code_simp


subsection \<open>Prefixes and tokens\<close>




lemma startsWith_append [simp]: "startsWith (p @ s) p"
  by (simp add: startsWith_def)







lemma strip_leading_clean: "clean tokens s \<Longrightarrow> strip_leading tokens s = s"
  by (subst strip_leading.simps) (simp add: clean_def)




lemma clean_Nil [simp]: "clean tokens []"
  by (simp add: clean_def find_None_iff startsWith_def)



lemma strip_leading_Nil [simp]: "strip_leading tokens [] = []"
  by (simp add: strip_leading_clean)

subsection \<open>Trimming\<close>









subsection \<open>Lower case\<close>












text \<open>
  Padding a query with white space does not change its normal form, and normalising
  twice is normalising once: for a query of ASCII characters whatever the platform,
  and for any query when the case mapping of the platform has the two properties.
\<close>

lemma is_ascii_append [simp]: "is_ascii (a @ b) \<longleftrightarrow> is_ascii a \<and> is_ascii b"
  by (simp add: is_ascii_def)







subsection \<open>Printing an integer\<close>

lemma digits_value_snoc:
  "digits_value (ds @ [c]) = 10 * digits_value ds + ((of_char c :: nat) - 48)"
  by (simp add: digits_value_def)

lemma digit_char:
  assumes "d < 10"
  shows "(of_char (char_of (48 + d :: nat)) :: nat) = 48 + d"
  using assms by (simp add: of_char_of)

lemma nat_toString_decimal: "is_decimal_of_nat (nat_toString n) n"
proof (induction n rule: nat_toString.induct)
  case (1 n)
  show ?case
  proof (cases "n < 10")
    case True
    then have s: "nat_toString n = [char_of (48 + n)]"
      by (subst nat_toString.simps) simp
    have c: "(of_char (char_of (48 + n)) :: nat) = 48 + n"
      using True by (rule digit_char)
    have "char_of (48 + n) = CHR ''0'' \<longrightarrow> n = 0"
    proof
      assume "char_of (48 + n) = CHR ''0''"
      then have "(of_char (char_of (48 + n)) :: nat) = of_char CHR ''0''"
        by simp
      with c show "n = 0"
        by simp
    qed
    moreover have "char_of (48 :: nat) = CHR ''0''"
      by code_simp
    ultimately show ?thesis
      using True c by (auto simp add: s is_decimal_of_nat_def is_digit_def digits_value_def)
  next
    case False
    define ds where "ds = nat_toString (n div 10)"
    define c where "c = char_of (48 + n mod 10)"
    have s: "nat_toString n = ds @ [c]"
      using False by (subst nat_toString.simps) (simp add: ds_def c_def)
    have ih: "is_decimal_of_nat ds (n div 10)"
      using "1" False by (simp add: ds_def)
    have cv: "(of_char c :: nat) = 48 + n mod 10"
      unfolding c_def by (rule digit_char) simp
    have ne: "ds \<noteq> []" and dig: "list_all is_digit ds" and v: "digits_value ds = n div 10"
      and lead: "hd ds = CHR ''0'' \<longrightarrow> ds = ''0''"
      using ih by (simp_all add: is_decimal_of_nat_def)
    have "hd ds \<noteq> CHR ''0''"
    proof
      assume "hd ds = CHR ''0''"
      with lead have "ds = ''0''"
        by simp
      then have "digits_value ds = 0"
        by (simp add: digits_value_def)
      with v False show False
        by simp
    qed
    then have "hd (ds @ [c]) \<noteq> CHR ''0''"
      using ne by simp
    moreover have "digits_value (ds @ [c]) = n"
      by (simp add: digits_value_snoc v cv)
    moreover have "list_all is_digit (ds @ [c])"
      using dig cv by (simp add: is_digit_def)
    ultimately show ?thesis
      by (simp add: s is_decimal_of_nat_def)
  qed
qed

lemma int_toString_decimal: "is_decimal_of (int_toString i) i"
proof (cases "i < 0")
  case True
  then show ?thesis
    using nat_toString_decimal [of "nat (- i)"] by (simp add: is_decimal_of_def int_toString_def)
next
  case False
  then show ?thesis
    using nat_toString_decimal [of "nat i"] by (simp add: is_decimal_of_def int_toString_def)
qed

lemma Number_toString_int:
  assumes "\<bar>i\<bar> < 2 ^ 53"
  shows "Number_toString P (Finite (of_int i)) = int_toString i"
proof -
  have "\<bar>of_int i :: rat\<bar> < 2 ^ 53"
  proof -
    have "(of_int \<bar>i\<bar> :: rat) < of_int (2 ^ 53)"
      using assms by (simp only: of_int_less_iff)
    then show ?thesis
      by simp
  qed
  then show ?thesis
    by simp
qed

lemma Number_toString_decimal:
  assumes "\<bar>i\<bar> < 2 ^ 53"
  shows "is_decimal_of (Number_toString P (Finite (of_int i))) i"
  by (simp only: Number_toString_int [OF assms] int_toString_decimal)

lemma int_toString_examples:
  "int_toString 87 = ''87''"
  "int_toString 85 = ''85''"
  "int_toString 3 = ''3''"
  "int_toString 123 = ''123''"
  "int_toString (- 10) = ''-10''"
  "int_toString 603 = ''603''"
  "int_toString 0 = ''0''"
  "int_toString (- 7) = ''-7''"
  "int_toString 1891 = ''1891''"
  by code_simp+

lemma Math_round_half_up:
  assumes "of_int n - 1 / 2 \<le> x" and "x < of_int n + 1 / 2"
  shows "Math_round (Finite x) = Finite (of_int n)"
proof -
  have "\<lfloor>x + 1 / 2\<rfloor> = n"
    using assms by (intro floor_unique) simp_all
  then show ?thesis
    by simp
qed

section \<open>The claims\<close>

subsection \<open>C1: a fresh entry is returned without asking the backend\<close>

text \<open>
  Claim C1. For every content kind (trending, category, search) and its parameters: if
  the store holds an entry under the computed key, the entry is an envelope whose
  payload is a list and whose timestamp is a number, and its age
  \<open>now - timestamp\<close> is at most the TTL of one hour, then the fetch operation returns
  the cached payload unchanged, leaves the world as it was and sends no request to the
  AI backend.
\<close>

theorem cache_hit_returns_payload:
  assumes "window_defined w"
    and "localStorage w (CACHE_PREFIX @ cacheKey_of P k) = Some item" and "item \<noteq> []"
    and "JSON_parse P item = Some (JObject fs)"
    and "map_of fs ''data'' = Some (JArray xs)"
    and "map_of fs ''timestamp'' = Some (JNumber t)"
    and "of_int (now w) - t \<le> of_int CACHE_TTL"
  shows "fetch P B k w = (Inr (JArray xs), w, [])"
  using getCachedData_fresh [OF assms(1,2,3,4,6,7)] assms(5)
  by (simp add: fetch_read_through read_through_def if_cached_def)

text \<open>The trending feed, with an entry that is one second old.\<close>

theorem cache_hit_returns_payload_witness:
  "fetch example_platform (example_backend Rejected) Trending
     (example_world [CACHE_PREFIX @ ''trending_movies'' \<mapsto> example_entry] 2000 (Some ''key''))
   = (Inr (JArray [JObject [(''id'', JNumber 603)]]),
      example_world [CACHE_PREFIX @ ''trending_movies'' \<mapsto> example_entry] 2000 (Some ''key''),
      [])"
proof -
  let ?w = "example_world [CACHE_PREFIX @ ''trending_movies'' \<mapsto> example_entry] 2000 (Some ''key'')"
  have h1: "window_defined ?w"
    by (simp add: example_world_simps)
  have h2: "localStorage ?w (CACHE_PREFIX @ cacheKey_of example_platform Trending) = Some example_entry"
    by (simp add: example_world_simps)
  have h3: "example_entry \<noteq> []"
    by (simp add: example_entry_def)
  have h4: "JSON_parse example_platform example_entry =
      Some (JObject [(''data'', JArray [JObject [(''id'', JNumber 603)]]), (''timestamp'', JNumber 1000)])"
    by (simp add: example_platform_simps example_parse_entry)
  have h5: "map_of [(''data'', JArray [JObject [(''id'', JNumber 603)]]), (''timestamp'', JNumber 1000)] ''data''
      = Some (JArray [JObject [(''id'', JNumber 603)]])"
    by simp
  have h6: "map_of [(''data'', JArray [JObject [(''id'', JNumber 603)]]), (''timestamp'', JNumber 1000)] ''timestamp''
      = Some (JNumber 1000)"
    by simp
  have h7: "of_int (now ?w) - 1000 \<le> (of_int CACHE_TTL :: rat)"
    by (simp add: example_world_simps CACHE_TTL_def)
  show ?thesis
    by (rule cache_hit_returns_payload [OF h1 h2 h3 h4 h5 h6 h7])
qed


subsection \<open>C2: a stale entry is purged and fetched again\<close>

text \<open>
  Claim C2. For every kind whose stored entry is older than the TTL at the time of the
  fetch, the age being the number that \<^verbatim>\<open>Date.now() - timestamp\<close> gives, and with the
  API key configured: reading the cache deletes the entry and reports a miss; the fetch
  sends exactly one request to the backend; and when the backend resolves, its text
  parses and the store accepts the write, the fetch returns the new payload, the clock
  has advanced by the time the backend took, and the entry under the key is the text of
  the object whose \<^verbatim>\<open>data\<close> is the new payload and whose \<^verbatim>\<open>timestamp\<close> is the
  time of the write. Nothing else in the store or the world has changed.
\<close>

theorem stale_entry_refetched:
  assumes "window_defined w"
    and "localStorage w (CACHE_PREFIX @ cacheKey_of P k) = Some item" and "item \<noteq> []"
    and "JSON_parse P item = Some (JObject fs)"
    and "map_of fs ''timestamp'' = Some (JNumber t)"
    and "double_gt (minus_double (of_int (now w)) t) (of_int CACHE_TTL)"
    and "API_KEY w = Some apiKey" and "apiKey \<noteq> []"
  shows "getCachedData P (cacheKey_of P k) w =
           (None, w\<lparr>localStorage := (localStorage w)(CACHE_PREFIX @ cacheKey_of P k := None)\<rparr>)
       \<and> snd (snd (fetch P B k w)) = [request_of k]
       \<and> (\<forall>elapsed reply payload.
             B (GoogleGenAI apiKey) (request_of k) = (elapsed, Resolved reply)
             \<and> JSON_parse P (response_text reply) = Some payload
             \<and> \<not> setItem_throws P ((localStorage w)(CACHE_PREFIX @ cacheKey_of P k := None))
                    (CACHE_PREFIX @ cacheKey_of P k)
                    (JSON_stringify P (JObject [(''data'', payload),
                       (''timestamp'', JNumber (of_int (now w + elapsed)))]))
             \<longrightarrow> fetch P B k w =
                   (Inr payload,
                    w\<lparr>now := now w + elapsed,
                      localStorage := (localStorage w)(CACHE_PREFIX @ cacheKey_of P k \<mapsto>
                        JSON_stringify P (JObject [(''data'', payload),
                          (''timestamp'', JNumber (of_int (now w + elapsed)))]))\<rparr>,
                    [request_of k]))"
proof -
  let ?K = "CACHE_PREFIX @ cacheKey_of P k"
  let ?w1 = "w\<lparr>localStorage := (localStorage w)(?K := None)\<rparr>"
  have read: "getCachedData P (cacheKey_of P k) w = (None, ?w1)"
    by (rule getCachedData_stale [OF assms(1-6)])
  have miss: "fetch P B k w = try_generate P B (cacheKey_of P k) (request_of k) (label_of k) ?w1"
    by (simp add: fetch_read_through read_through_def read if_cached_def)
  have key: "API_KEY ?w1 = Some apiKey"
    using assms(7) by simp
  have calls: "snd (snd (fetch P B k w)) = [request_of k]"
    unfolding miss by (rule try_generate_calls [where w = ?w1, OF key assms(8)])
  have written: "fetch P B k w =
      (Inr payload,
       w\<lparr>now := now w + elapsed,
         localStorage := (localStorage w)(?K \<mapsto>
           JSON_stringify P (JObject [(''data'', payload),
             (''timestamp'', JNumber (of_int (now w + elapsed)))]))\<rparr>,
       [request_of k])"
    if b: "B (GoogleGenAI apiKey) (request_of k) = (elapsed, Resolved reply)"
      and p: "JSON_parse P (response_text reply) = Some payload"
      and s: "\<not> setItem_throws P ((localStorage w)(?K := None)) ?K
                 (JSON_stringify P (JObject [(''data'', payload),
                    (''timestamp'', JNumber (of_int (now w + elapsed)))]))"
    for elapsed reply payload
  proof -
    let ?w2 = "?w1\<lparr>now := now ?w1 + elapsed\<rparr>"
    have win: "window_defined ?w2"
      using assms(1) by simp
    have ok: "\<not> setItem_throws P (localStorage ?w2) ?K (JSON_stringify P (envelope payload (now ?w2)))"
      using s by (simp add: envelope_def)
    have "fetch P B k w = (Inr payload, setCachedData P (cacheKey_of P k) payload ?w2, [request_of k])"
      unfolding miss
      by (rule try_generate_parsed [where B = B and w = ?w1, OF key assms(8) b p])
    moreover have "setCachedData P (cacheKey_of P k) payload ?w2 =
        ?w2\<lparr>localStorage := (localStorage ?w2)(?K \<mapsto> JSON_stringify P (envelope payload (now ?w2)))\<rparr>"
      by (rule setCachedData_stored [OF win ok])
    ultimately show ?thesis
      by (simp add: envelope_def)
  qed
  from read calls written show ?thesis
    by blast
qed

text \<open>
  The trending feed, with an entry that is 4999 seconds old. The new entry carries the
  new payload and the time 5000250 of the write, 250 milliseconds after the fetch began.
\<close>

theorem stale_entry_refetched_witness:
  \<open>getCachedData example_platform ''trending_movies'' stale_world = (None, empty_world)
   \<and> fetch example_platform (example_backend (Resolved (Some ''[{"id":603}]''))) Trending stale_world
     = (Inr (JArray [JObject [(''id'', JNumber 603)]]),
        example_world
          [CACHE_PREFIX @ ''trending_movies'' \<mapsto> ''{"data":[{"id":603}],"timestamp":5000250}'']
          5000250 (Some ''key''),
        [trending_request])\<close>
proof -
  let ?B = \<open>example_backend (Resolved (Some ''[{"id":603}]''))\<close>
  let ?fs = "[(''data'', JArray [JObject [(''id'', JNumber 603)]]), (''timestamp'', JNumber 1000)]"
  let ?new = "JObject [(''data'', JArray [JObject [(''id'', JNumber 603)]]),
      (''timestamp'', JNumber (of_int (now stale_world + 250)))]"
  have h1: "window_defined stale_world"
    by (simp add: stale_world_def example_simps)
  have h2: "localStorage stale_world (CACHE_PREFIX @ cacheKey_of example_platform Trending) = Some example_entry"
    by (simp add: stale_world_def example_simps)
  have h3: "example_entry \<noteq> []"
    by (simp add: example_entry_def)
  have h4: "JSON_parse example_platform example_entry = Some (JObject ?fs)"
    by (simp add: example_simps example_parse_entry)
  have h5: "map_of ?fs ''timestamp'' = Some (JNumber 1000)"
    by simp
  have h6: "double_gt (minus_double (of_int (now stale_world)) 1000) (of_int CACHE_TTL)"
    using expired_integer_timestamp [of 5000000 1000]
    by (simp add: stale_world_def example_simps CACHE_TTL_def)
  have h7: "API_KEY stale_world = Some ''key''"
    by (simp add: stale_world_def example_simps)
  have h8: "''key'' \<noteq> []"
    by simp
  note T = stale_entry_refetched [where B = ?B, OF h1 h2 h3 h4 h5 h6 h7 h8]
  have purge: "stale_world\<lparr>localStorage :=
      (localStorage stale_world)(CACHE_PREFIX @ cacheKey_of example_platform Trending := None)\<rparr>
      = empty_world"
    by (simp add: stale_world_def empty_world_def example_world_def)
  have b: \<open>?B (GoogleGenAI ''key'') (request_of Trending) = (250, Resolved (Some ''[{"id":603}]''))\<close>
    by (simp add: example_simps)
  have p: \<open>JSON_parse example_platform (response_text (Some ''[{"id":603}]''))
      = Some (JArray [JObject [(''id'', JNumber 603)]])\<close>
    by (simp add: example_simps)
  have s: "\<not> setItem_throws example_platform
      ((localStorage stale_world)(CACHE_PREFIX @ cacheKey_of example_platform Trending := None))
      (CACHE_PREFIX @ cacheKey_of example_platform Trending)
      (JSON_stringify example_platform ?new)"
    by (simp add: example_simps)
  from T b p s
  have "fetch example_platform ?B Trending stale_world =
      (Inr (JArray [JObject [(''id'', JNumber 603)]]),
       stale_world\<lparr>now := now stale_world + 250,
         localStorage := (localStorage stale_world)
           (CACHE_PREFIX @ cacheKey_of example_platform Trending \<mapsto>
              JSON_stringify example_platform ?new)\<rparr>,
       [request_of Trending])"
    by blast
  moreover have \<open>stale_world\<lparr>now := now stale_world + 250,
         localStorage := (localStorage stale_world)
           (CACHE_PREFIX @ cacheKey_of example_platform Trending \<mapsto>
              JSON_stringify example_platform ?new)\<rparr>
      = example_world
          [CACHE_PREFIX @ ''trending_movies'' \<mapsto> ''{"data":[{"id":603}],"timestamp":5000250}'']
          5000250 (Some ''key'')\<close>
    by (simp add: stale_world_def example_world_def example_platform_simps example_stringify_written)
  moreover from T [THEN conjunct1, unfolded purge]
  have "getCachedData example_platform (cacheKey_of example_platform Trending) stale_world
      = (None, empty_world)" .
  ultimately show ?thesis
    by simp
qed

subsection \<open>C3: a failing backend gives the empty list and writes nothing\<close>

text \<open>
  Claim C3, as the code has it. For every kind, on a cache miss with the API key
  configured: if the backend call rejects, or it resolves to a text that
  \<^verbatim>\<open>JSON.parse\<close> rejects, then the fetch returns the empty list as a value, it has
  sent exactly one request, it has written nothing to the store, and any later fetch of
  the same kind in a world with that store and the same configuration sends a request
  to the backend again.
\<close>

theorem backend_failure_gives_empty_list:
  assumes miss: "if_cached (fst (getCachedData P (cacheKey_of P k) w)) = None"
    and key: "API_KEY w = Some apiKey" and nonempty: "apiKey \<noteq> []"
    and answer: "B (GoogleGenAI apiKey) (request_of k) = (elapsed, answer)"
    and failed: "answer = Rejected
        \<or> (\<exists>reply. answer = Resolved reply \<and> JSON_parse P (response_text reply) = None)"
  shows "fst (fetch P B k w) = Inr (JArray [])
       \<and> snd (snd (fetch P B k w)) = [request_of k]
       \<and> localStorage (fst (snd (fetch P B k w))) =
           localStorage (snd (getCachedData P (cacheKey_of P k) w))
       \<and> (\<forall>B2 w2. window_defined w2 = window_defined w \<and> API_KEY w2 = API_KEY w
             \<and> localStorage w2 = localStorage (fst (snd (fetch P B k w)))
             \<longrightarrow> snd (snd (fetch P B2 k w2)) = [request_of k])"
proof -
  let ?key = "cacheKey_of P k"
  let ?w1 = "snd (getCachedData P ?key w)"
  have result: "fetch P B k w =
      (Inr (JArray []), console_error (label_of k) (?w1\<lparr>now := now w + elapsed\<rparr>), [request_of k])"
    unfolding fetch_read_through
    by (rule read_through_failure [where B = B, OF miss key nonempty answer failed])
  have store: "localStorage (fst (snd (fetch P B k w))) = localStorage ?w1"
    by (simp add: result console_error_def)
  have again: "snd (snd (fetch P B2 k w2)) = [request_of k]"
    if win: "window_defined w2 = window_defined w"
      and k2: "API_KEY w2 = API_KEY w"
      and same: "localStorage w2 = localStorage (fst (snd (fetch P B k w)))"
    for B2 w2
  proof -
    have "localStorage w2 (CACHE_PREFIX @ ?key) = localStorage ?w1 (CACHE_PREFIX @ ?key)"
      using same store by simp
    from getCachedData_miss_persists [OF miss win this]
    have miss2: "if_cached (fst (getCachedData P ?key w2)) = None" .
    have "API_KEY (snd (getCachedData P ?key w2)) = Some apiKey"
      using k2 key by (simp add: getCachedData_keeps_config)
    from try_generate_calls [OF this nonempty]
    show ?thesis
      by (simp add: fetch_read_through read_through_miss [OF miss2])
  qed
  from result store again show ?thesis
    by simp
qed

text \<open>The category feed \<^verbatim>\<open>tv\<close> with a backend that rejects.\<close>

theorem backend_failure_gives_empty_list_witness:
  "fst (fetch example_platform (example_backend Rejected) (Category ''tv'') empty_world)
     = Inr (JArray [])
   \<and> snd (snd (fetch example_platform (example_backend Rejected) (Category ''tv'') empty_world))
     = [category_request ''tv'']
   \<and> localStorage (fst (snd (fetch example_platform (example_backend Rejected) (Category ''tv'')
        empty_world))) = Map.empty
   \<and> snd (snd (fetch example_platform (example_backend (Resolved None)) (Category ''tv'')
        empty_world)) = [category_request ''tv'']"
proof -
  let ?B = "example_backend Rejected"
  let ?k = "Category ''tv''"
  have h1: "if_cached (fst (getCachedData example_platform (cacheKey_of example_platform ?k) empty_world)) = None"
    by (simp add: empty_world_read)
  have h2: "API_KEY empty_world = Some ''key''"
    by (simp add: empty_world_simps)
  have h3: "''key'' \<noteq> []"
    by simp
  have h4: "?B (GoogleGenAI ''key'') (request_of ?k) = (250, Rejected)"
    by (simp add: example_backend_simp)
  have h5: "Rejected = Rejected
      \<or> (\<exists>reply. Rejected = Resolved reply \<and> JSON_parse example_platform (response_text reply) = None)"
    by simp
  note T = backend_failure_gives_empty_list [where B = ?B, OF h1 h2 h3 h4 h5]
  have store: "localStorage (fst (snd (fetch example_platform ?B ?k empty_world))) = Map.empty"
    using T by (simp add: empty_world_read empty_world_simps)
  have "window_defined empty_world = window_defined empty_world
      \<and> API_KEY empty_world = API_KEY empty_world
      \<and> localStorage empty_world = localStorage (fst (snd (fetch example_platform ?B ?k empty_world)))"
    unfolding store empty_world_simps by simp
  with T have "snd (snd (fetch example_platform (example_backend (Resolved None)) ?k empty_world))
      = [request_of ?k]"
    by blast
  with T store show ?thesis
    by simp
qed

text \<open>
  The claim as the specification states it also covers a response that is JSON but not
  an array. The service does not look at the shape of the parsed value: the object
  \<^verbatim>\<open>{}\<close> is returned to the caller and stored in the cache.
\<close>

theorem non_array_response_counterexample:
  \<open>fst (fetch example_platform (example_backend (Resolved (Some ''{}''))) Trending empty_world)
     = Inr (JObject [])
   \<and> localStorage (fst (snd (fetch example_platform (example_backend (Resolved (Some ''{}'')))
         Trending empty_world))) (CACHE_PREFIX @ ''trending_movies'')
     = Some ''{"data":{},"timestamp":5000250}''\<close>
  by (simp add: fetchTrendingMoviesAI_def getCachedData_def getCachedData_try_def try_generate_def try_body_def getAI_def
      setCachedData_def empty_world_def example_simps)


subsection \<open>C4: the search key is the trimmed lower-case query\<close>



subsection \<open>C5: a missing API key is absorbed by the fetch\<close>

text \<open>
  Claim C5, as the code has it. When the API key is undefined or empty,
  \<^verbatim>\<open>getAI\<close> throws; on a cache miss every fetch operation catches that error: it
  returns the empty list as a value, sends no request, and logs the two lines
  \<^verbatim>\<open>API Key missing\<close> and the error label of the operation.
\<close>

theorem missing_api_key_is_absorbed:
  assumes "API_KEY w = None \<or> API_KEY w = Some []"
    and "if_cached (fst (getCachedData P (cacheKey_of P k) w)) = None"
  shows "fst (getAI w) = Inl (Error ''API Key is missing. Please set it in the environment.'')
       \<and> fetch P B k w =
           (Inr (JArray []),
            console_error (label_of k)
              (console_error ''API Key missing'' (snd (getCachedData P (cacheKey_of P k) w))),
            [])"
proof -
  have "API_KEY (snd (getCachedData P (cacheKey_of P k) w)) = None
      \<or> API_KEY (snd (getCachedData P (cacheKey_of P k) w)) = Some []"
    using assms(1) by (simp add: getCachedData_keeps_config)
  from try_generate_no_key [OF this] assms(2)
  have "fetch P B k w =
      (Inr (JArray []),
       console_error (label_of k)
         (console_error ''API Key missing'' (snd (getCachedData P (cacheKey_of P k) w))), [])"
    by (simp add: fetch_read_through read_through_miss)
  moreover have "fst (getAI w) = Inl (Error ''API Key is missing. Please set it in the environment.'')"
    using assms(1) by (auto simp add: getAI_def)
  ultimately show ?thesis
    by simp
qed

text \<open>A search without an API key.\<close>

theorem missing_api_key_is_absorbed_witness:
  "fst (getAI keyless_world) = Inl (Error ''API Key is missing. Please set it in the environment.'')
   \<and> fetch example_platform (example_backend (Resolved None)) (Search ''Sad Movies '') keyless_world
     = (Inr (JArray []),
        console_error ''AI Search Error:'' (console_error ''API Key missing'' keyless_world),
        [])"
proof -
  have h1: "API_KEY keyless_world = None \<or> API_KEY keyless_world = Some []"
    by (simp add: keyless_world_def example_world_def)
  have h2: "if_cached (fst (getCachedData example_platform (cacheKey_of example_platform (Search ''Sad Movies ''))
      keyless_world)) = None"
    by (simp only: keyless_world_read fst_conv if_cached_None)
  from missing_api_key_is_absorbed [OF h1 h2, of "example_backend (Resolved None)"]
  show ?thesis
    by (simp only: keyless_world_read snd_conv label_of.simps)
qed

text \<open>
  The claim as the specification states it has the failure reach the caller as an
  exception. The trending fetch without an API key returns the empty list.
\<close>

theorem missing_api_key_counterexample:
  "fetch example_platform (example_backend (Resolved None)) Trending keyless_world
     = (Inr (JArray []),
        keyless_world\<lparr>console := [''API Key missing'', ''AI Fetch Error:'']\<rparr>,
        [])"
  by (simp add: fetchTrendingMoviesAI_def getCachedData_def getCachedData_try_def try_generate_def try_body_def getAI_def
      console_error_def keyless_world_def example_simps)

subsection \<open>C6: an entry that does not parse is a miss and stays in the store\<close>




subsection \<open>C7: the keys of the trending and the category feed\<close>

text \<open>
  Claim C7, as the code has it. The trending fetch reads and writes the store under
  \<^verbatim>\<open>movistore_cache_v1_trending_movies\<close>, and the fetch of a category under
  \<^verbatim>\<open>movistore_cache_v1_category_\<close> followed by the category: a fresh entry there is
  returned without a request, and when there is no entry there a successful fetch
  writes the envelope there and nowhere else.
\<close>

theorem trending_and_category_keys:
  assumes which: "k = Trending \<and> K = ''movistore_cache_v1_trending_movies''
      \<or> k = Category category \<and> K = ''movistore_cache_v1_category_'' @ category"
    and win: "window_defined w"
  shows "(\<forall>item fs xs t.
            localStorage w K = Some item \<and> item \<noteq> [] \<and> JSON_parse P item = Some (JObject fs)
            \<and> map_of fs ''data'' = Some (JArray xs) \<and> map_of fs ''timestamp'' = Some (JNumber t)
            \<and> of_int (now w) - t \<le> of_int CACHE_TTL
            \<longrightarrow> fetch P B k w = (Inr (JArray xs), w, []))
       \<and> (\<forall>apiKey elapsed reply payload.
            localStorage w K = None \<and> API_KEY w = Some apiKey \<and> apiKey \<noteq> []
            \<and> B (GoogleGenAI apiKey) (request_of k) = (elapsed, Resolved reply)
            \<and> JSON_parse P (response_text reply) = Some payload
            \<and> \<not> setItem_throws P (localStorage w) K
                   (JSON_stringify P (envelope payload (now w + elapsed)))
            \<longrightarrow> localStorage (fst (snd (fetch P B k w))) =
                  (localStorage w)(K \<mapsto> JSON_stringify P (envelope payload (now w + elapsed))))"
proof -
  have K: "K = CACHE_PREFIX @ cacheKey_of P k"
    using which by (auto simp add: CACHE_PREFIX_def)
  have hit: "fetch P B k w = (Inr (JArray xs), w, [])"
    if "localStorage w K = Some item" and "item \<noteq> []" and "JSON_parse P item = Some (JObject fs)"
      and "map_of fs ''data'' = Some (JArray xs)" and "map_of fs ''timestamp'' = Some (JNumber t)"
      and "of_int (now w) - t \<le> of_int CACHE_TTL"
    for item fs xs t
    unfolding fetch_read_through
    by (rule read_through_fresh [OF win that(1) [unfolded K] that(2-6)])
  have stored: "localStorage (fst (snd (fetch P B k w))) =
        (localStorage w)(K \<mapsto> JSON_stringify P (envelope payload (now w + elapsed)))"
    if absent: "localStorage w K = None" and key: "API_KEY w = Some apiKey" and ne: "apiKey \<noteq> []"
      and answer: "B (GoogleGenAI apiKey) (request_of k) = (elapsed, Resolved reply)"
      and parsed: "JSON_parse P (response_text reply) = Some payload"
      and accepted: "\<not> setItem_throws P (localStorage w) K
          (JSON_stringify P (envelope payload (now w + elapsed)))"
    for apiKey elapsed reply payload
  proof -
    have read: "getCachedData P (cacheKey_of P k) w = (None, w)"
      by (rule getCachedData_absent [OF absent [unfolded K]])
    have miss: "if_cached (fst (getCachedData P (cacheKey_of P k) w)) = None"
      by (simp add: read)
    have ok: "\<not> setItem_throws P (localStorage (snd (getCachedData P (cacheKey_of P k) w)))
        (CACHE_PREFIX @ cacheKey_of P k) (JSON_stringify P (envelope payload (now w + elapsed)))"
      using accepted by (simp add: read K)
    from read_through_stores [where B = B, OF win miss key ne answer parsed ok]
    show ?thesis
      by (simp add: fetch_read_through read K)
  qed
  from hit stored show ?thesis
    by blast
qed

text \<open>A hit of the trending feed and a write of the category feed \<^verbatim>\<open>tv\<close>.\<close>

theorem trending_and_category_keys_witness:
  \<open>fetch example_platform (example_backend Rejected) Trending fresh_world
     = (Inr (JArray [JObject [(''id'', JNumber 603)]]), fresh_world, [])
   \<and> localStorage fresh_world ''movistore_cache_v1_trending_movies'' = Some example_entry
   \<and> localStorage (fst (snd (fetch example_platform (example_backend (Resolved (Some ''[]'')))
        (Category ''tv'') empty_world)))
     = [''movistore_cache_v1_category_tv'' \<mapsto> ''{"data":[],"timestamp":5000250}'']\<close>
proof -
  let ?fs = "[(''data'', JArray [JObject [(''id'', JNumber 603)]]), (''timestamp'', JNumber 1000)]"
  let ?B = \<open>example_backend (Resolved (Some ''[]''))\<close>
  have a1: "Trending = Trending \<and> ''movistore_cache_v1_trending_movies'' = ''movistore_cache_v1_trending_movies''
      \<or> Trending = Category [] \<and> ''movistore_cache_v1_trending_movies'' = ''movistore_cache_v1_category_'' @ []"
    by simp
  have a2: "window_defined fresh_world"
    by (simp add: fresh_world_def example_world_def)
  note T1 = trending_and_category_keys [where B = "example_backend Rejected" and P = example_platform,
      OF a1 a2, THEN conjunct1]
  have e: "localStorage fresh_world ''movistore_cache_v1_trending_movies'' = Some example_entry"
    by (simp add: fresh_world_def example_world_def CACHE_PREFIX_def)
  have "example_entry \<noteq> []"
    by (simp add: example_entry_def)
  moreover have "JSON_parse example_platform example_entry = Some (JObject ?fs)"
    by (simp add: example_simps example_parse_entry)
  moreover have "map_of ?fs ''data'' = Some (JArray [JObject [(''id'', JNumber 603)]])"
    and "map_of ?fs ''timestamp'' = Some (JNumber 1000)"
    by simp_all
  moreover have "of_int (now fresh_world) - 1000 \<le> (of_int CACHE_TTL :: rat)"
    by (simp add: fresh_world_def example_world_def CACHE_TTL_def)
  ultimately have hit: "fetch example_platform (example_backend Rejected) Trending fresh_world
      = (Inr (JArray [JObject [(''id'', JNumber 603)]]), fresh_world, [])"
    using T1 e by blast
  have b1: "Category ''tv'' = Trending \<and> ''movistore_cache_v1_category_tv'' = ''movistore_cache_v1_trending_movies''
      \<or> Category ''tv'' = Category ''tv'' \<and> ''movistore_cache_v1_category_tv'' = ''movistore_cache_v1_category_'' @ ''tv''"
    by simp
  have b2: "window_defined empty_world"
    by (simp add: empty_world_simps)
  note T2 = trending_and_category_keys [where B = ?B and P = example_platform,
      OF b1 b2, THEN conjunct2]
  have "localStorage empty_world ''movistore_cache_v1_category_tv'' = None"
    by (simp add: empty_world_simps)
  moreover have "API_KEY empty_world = Some ''key''" and "''key'' \<noteq> []"
    by (simp_all add: empty_world_simps)
  moreover have \<open>?B (GoogleGenAI ''key'') (request_of (Category ''tv'')) = (250, Resolved (Some ''[]''))\<close>
    by (simp add: example_backend_simp)
  moreover have "JSON_parse example_platform (response_text (Some ''[]'')) = Some (JArray [])"
    by (simp add: example_simps)
  moreover have "\<not> setItem_throws example_platform (localStorage empty_world)
      ''movistore_cache_v1_category_tv''
      (JSON_stringify example_platform (envelope (JArray []) (now empty_world + 250)))"
    by (simp add: example_simps)
  ultimately have "localStorage (fst (snd (fetch example_platform ?B (Category ''tv'') empty_world)))
      = (localStorage empty_world)(''movistore_cache_v1_category_tv'' \<mapsto>
          JSON_stringify example_platform (envelope (JArray []) (now empty_world + 250)))"
    using T2 by blast
  moreover have \<open>(localStorage empty_world)(''movistore_cache_v1_category_tv'' \<mapsto>
          JSON_stringify example_platform (envelope (JArray []) (now empty_world + 250)))
      = [''movistore_cache_v1_category_tv'' \<mapsto> ''{"data":[],"timestamp":5000250}'']\<close>
    by (simp add: example_simps empty_world_simps)
  ultimately show ?thesis
    using hit e by simp
qed

text \<open>
  The claim as the specification states it has the trending feed under the key
  \<^verbatim>\<open>trending\<close>. A fresh entry filed under that key is not found: the backend is
  asked.
\<close>

theorem trending_key_counterexample:
  "localStorage misfiled_world (CACHE_PREFIX @ ''trending'') = Some example_entry
   \<and> fetchTrendingMoviesAI example_platform (example_backend Rejected) misfiled_world
     = (Inr (JArray []),
        misfiled_world\<lparr>now := 2250, console := [''AI Fetch Error:'']\<rparr>,
        [trending_request])"
  by (simp add: fetchTrendingMoviesAI_def getCachedData_def getCachedData_try_def try_generate_def try_body_def getAI_def
      console_error_def misfiled_world_def example_simps CACHE_PREFIX_def)


subsection \<open>C8: the source of an image\<close>




subsection \<open>C9: the rating as a percentage\<close>

text \<open>
  Claim C9, as the code has it. The movie card renders the rating \<open>r\<close> as the integer
  nearest to \<open>r * 10\<close>, a tie going up, followed by \<^verbatim>\<open>% Match\<close>, for every rating,
  inside or outside the range from 0 to 10, whose product with 10 is finite; the product
  is the product of doubles, and an integer below \<open>2 ^ 53\<close> in magnitude is printed as
  its decimal numeral. The hero banner renders the constant text \<^verbatim>\<open>98% Match\<close>,
  whatever the rating.
\<close>

theorem rating_rendered_as_percent:
  "(times_double (vote_average m) 10 = Finite p
      \<and> of_int n - 1 / 2 \<le> p \<and> p < of_int n + 1 / 2
      \<longrightarrow> MovieCard_match P m = Number_toString P (Finite (of_int n)) @ ''% Match'')
   \<and> (\<bar>n\<bar> < 2 ^ 53 \<longrightarrow> is_decimal_of (Number_toString P (Finite (of_int n))) n)
   \<and> Hero_match m = ''98% Match''"
proof -
  have "MovieCard_match P m = Number_toString P (Finite (of_int n)) @ ''% Match''"
    if "times_double (vote_average m) 10 = Finite p"
      and "of_int n - 1 / 2 \<le> p" and "p < of_int n + 1 / 2"
    using Math_round_half_up [OF that(2,3)] by (simp only: MovieCard_match_def that(1))
  moreover have "is_decimal_of (Number_toString P (Finite (of_int n))) n" if "\<bar>n\<bar> < 2 ^ 53"
    using that by (rule Number_toString_decimal)
  moreover have "Hero_match m = ''98% Match''"
    by (simp add: Hero_match_def)
  ultimately show ?thesis
    by blast
qed

text \<open>
  The ratings 8.7, 8.45, 0.25 (a tie), 12.3 and -1. The double nearest to 8.45 is
  below 8.45, but its product with 10 is the double 84.5, a tie, and the card shows 85.
\<close>

theorem rating_rendered_as_percent_witness:
  "MovieCard_match example_platform (example_movie 603 None None double_8_7) = ''87% Match''
   \<and> MovieCard_match example_platform (example_movie 603 None None double_8_45) = ''85% Match''
   \<and> MovieCard_match example_platform (example_movie 603 None None (1 / 4)) = ''3% Match''
   \<and> MovieCard_match example_platform (example_movie 603 None None double_12_3) = ''123% Match''
   \<and> MovieCard_match example_platform (example_movie 603 None None (- 1)) = ''-10% Match''
   \<and> is_decimal_of (Number_toString example_platform (Finite 85)) 85
   \<and> Hero_match (example_movie 603 None None double_8_7) = ''98% Match''"
proof -
  have v: "vote_average (example_movie 603 None None r) = r" for r
    by (simp add: example_movie_def)
  have "times_double (vote_average (example_movie 603 None None double_8_7)) 10 = Finite 87
      \<and> of_int 87 - 1 / 2 \<le> (87 :: rat) \<and> (87 :: rat) < of_int 87 + 1 / 2"
    by (simp add: v example_doubles)
  with rating_rendered_as_percent [of "example_movie 603 None None double_8_7" 87 87 example_platform]
  have a: "MovieCard_match example_platform (example_movie 603 None None double_8_7)
      = Number_toString example_platform (Finite (of_int 87)) @ ''% Match''"
    and h: "Hero_match (example_movie 603 None None double_8_7) = ''98% Match''"
    by blast+
  have "times_double (vote_average (example_movie 603 None None double_8_45)) 10 = Finite (169 / 2)
      \<and> of_int 85 - 1 / 2 \<le> (169 / 2 :: rat) \<and> (169 / 2 :: rat) < of_int 85 + 1 / 2"
    and "\<bar>85 :: int\<bar> < 2 ^ 53"
    by (simp_all add: v example_doubles)
  with rating_rendered_as_percent [of "example_movie 603 None None double_8_45" "169 / 2" 85 example_platform]
  have b: "MovieCard_match example_platform (example_movie 603 None None double_8_45)
      = Number_toString example_platform (Finite (of_int 85)) @ ''% Match''"
    and g: "is_decimal_of (Number_toString example_platform (Finite (of_int 85))) 85"
    by blast+
  have "times_double (vote_average (example_movie 603 None None (1 / 4))) 10 = Finite (5 / 2)
      \<and> of_int 3 - 1 / 2 \<le> (5 / 2 :: rat) \<and> (5 / 2 :: rat) < of_int 3 + 1 / 2"
    by (simp add: v example_doubles)
  with rating_rendered_as_percent [of "example_movie 603 None None (1 / 4)" "5 / 2" 3 example_platform]
  have c: "MovieCard_match example_platform (example_movie 603 None None (1 / 4))
      = Number_toString example_platform (Finite (of_int 3)) @ ''% Match''"
    by blast
  have "times_double (vote_average (example_movie 603 None None double_12_3)) 10 = Finite 123
      \<and> of_int 123 - 1 / 2 \<le> (123 :: rat) \<and> (123 :: rat) < of_int 123 + 1 / 2"
    by (simp add: v example_doubles)
  with rating_rendered_as_percent [of "example_movie 603 None None double_12_3" 123 123 example_platform]
  have d: "MovieCard_match example_platform (example_movie 603 None None double_12_3)
      = Number_toString example_platform (Finite (of_int 123)) @ ''% Match''"
    by blast
  have "times_double (vote_average (example_movie 603 None None (- 1))) 10 = Finite (- 10)
      \<and> of_int (- 10) - 1 / 2 \<le> (- 10 :: rat) \<and> (- 10 :: rat) < of_int (- 10) + 1 / 2"
    by (simp add: v example_doubles)
  with rating_rendered_as_percent [of "example_movie 603 None None (- 1)" "- 10" "- 10" example_platform]
  have e: "MovieCard_match example_platform (example_movie 603 None None (- 1))
      = Number_toString example_platform (Finite (of_int (- 10))) @ ''% Match''"
    by blast
  from a b c d e g h show ?thesis
    by (simp add: int_toString_examples)
qed

text \<open>
  The claim as the specification states it has the rule hold wherever a rating is
  shown. For a movie rated 8.7 the movie card shows 87 percent and the hero banner
  shows 98 percent.
\<close>

theorem hero_match_counterexample:
  "vote_average (example_movie 603 None None double_8_7) = double_8_7
   \<and> MovieCard_match example_platform (example_movie 603 None None double_8_7) = ''87% Match''
   \<and> Hero_match (example_movie 603 None None double_8_7) = ''98% Match''
   \<and> Hero_match (example_movie 603 None None double_8_7)
       \<noteq> Number_toString example_platform
           (Math_round (times_double (vote_average (example_movie 603 None None double_8_7)) 10))
           @ ''% Match''"
proof -
  have "Number_toString example_platform (Finite 87) = ''87''"
    using Number_toString_int [of 87 example_platform] by (simp add: int_toString_examples)
  moreover have "Math_round (Finite 87) = Finite 87"
    using Math_round_half_up [of 87 87] by simp
  ultimately show ?thesis
    by (simp add: Hero_match_def MovieCard_match_def example_movie_def example_doubles)
qed

subsection \<open>C10: an empty result is cached\<close>

text \<open>
  Claim C10. An absent or empty response text is read as \<^verbatim>\<open>[]\<close>. On a cache miss
  with the API key configured, if the backend resolves and its text parses to the empty
  array, and the store accepts the write of an envelope that reads back as written,
  then the fetch returns the empty list, the envelope of the empty list with the time
  of the write is stored under the key of the request, and every later fetch of the
  same kind that finds this entry within the TTL returns the empty list, leaves the
  world as it was and sends no request.
\<close>

theorem empty_result_is_cached:
  assumes win: "window_defined w"
    and miss: "if_cached (fst (getCachedData P (cacheKey_of P k) w)) = None"
    and key: "API_KEY w = Some apiKey" and nonempty: "apiKey \<noteq> []"
    and answer: "B (GoogleGenAI apiKey) (request_of k) = (elapsed, Resolved reply)"
    and parsed: "JSON_parse P (response_text reply) = Some (JArray [])"
    and written: "JSON_stringify P (envelope (JArray []) (now w + elapsed)) = item"
    and item: "item \<noteq> []"
    and reread: "JSON_parse P item = Some (envelope (JArray []) (now w + elapsed))"
    and accepted: "\<not> setItem_throws P (localStorage (snd (getCachedData P (cacheKey_of P k) w)))
        (CACHE_PREFIX @ cacheKey_of P k) item"
  shows "response_text None = ''[]'' \<and> response_text (Some []) = ''[]''
       \<and> fst (fetch P B k w) = Inr (JArray [])
       \<and> snd (snd (fetch P B k w)) = [request_of k]
       \<and> localStorage (fst (snd (fetch P B k w))) (CACHE_PREFIX @ cacheKey_of P k) = Some item
       \<and> now (fst (snd (fetch P B k w))) = now w + elapsed
       \<and> (\<forall>B2 w2. window_defined w2
             \<and> localStorage w2 (CACHE_PREFIX @ cacheKey_of P k) = Some item
             \<and> now w2 - (now w + elapsed) \<le> CACHE_TTL
             \<longrightarrow> fetch P B2 k w2 = (Inr (JArray []), w2, []))"
proof -
  have ok: "\<not> setItem_throws P (localStorage (snd (getCachedData P (cacheKey_of P k) w)))
      (CACHE_PREFIX @ cacheKey_of P k) (JSON_stringify P (envelope (JArray []) (now w + elapsed)))"
    using accepted written by simp
  have first: "fetch P B k w =
      (Inr (JArray []),
       (snd (getCachedData P (cacheKey_of P k) w))
         \<lparr>now := now w + elapsed,
          localStorage := (localStorage (snd (getCachedData P (cacheKey_of P k) w)))
            (CACHE_PREFIX @ cacheKey_of P k \<mapsto> item)\<rparr>,
       [request_of k])"
    unfolding fetch_read_through
    using read_through_stores [where B = B, OF win miss key nonempty answer parsed ok]
    by (simp add: written)
  have later: "fetch P B2 k w2 = (Inr (JArray []), w2, [])"
    if w2: "window_defined w2"
      and same: "localStorage w2 (CACHE_PREFIX @ cacheKey_of P k) = Some item"
      and age: "now w2 - (now w + elapsed) \<le> CACHE_TTL"
    for B2 w2
  proof -
    have p: "JSON_parse P item =
        Some (JObject [(''data'', JArray []), (''timestamp'', JNumber (of_int (now w + elapsed)))])"
      using reread by (simp add: envelope_def)
    have d: "map_of [(''data'', JArray []), (''timestamp'', JNumber (of_int (now w + elapsed)))] ''data''
        = Some (JArray [])"
      by simp
    have t: "map_of [(''data'', JArray []), (''timestamp'', JNumber (of_int (now w + elapsed)))] ''timestamp''
        = Some (JNumber (of_int (now w + elapsed)))"
      by simp
    have a: "of_int (now w2) - of_int (now w + elapsed) \<le> (of_int CACHE_TTL :: rat)"
      using age by (metis of_int_diff of_int_le_iff)
    show ?thesis
      unfolding fetch_read_through
      by (rule read_through_fresh [OF w2 same item p d t a])
  qed
  have "response_text None = ''[]''" and "response_text (Some []) = ''[]''"
    by (simp_all add: response_text_def)
  with first later show ?thesis
    by simp
qed

text \<open>A search whose response has no text, and the same search 50 minutes later.\<close>

theorem empty_result_is_cached_witness:
  \<open>fst (fetch example_platform (example_backend (Resolved None)) (Search ''Sad Movies '') empty_world)
     = Inr (JArray [])
   \<and> localStorage (fst (snd (fetch example_platform (example_backend (Resolved None))
        (Search ''Sad Movies '') empty_world))) (CACHE_PREFIX @ ''search_sad movies'')
     = Some ''{"data":[],"timestamp":5000250}''
   \<and> fetch example_platform (example_backend Rejected) (Search ''Sad Movies '')
        (example_world [CACHE_PREFIX @ ''search_sad movies'' \<mapsto> ''{"data":[],"timestamp":5000250}'']
           8000000 None)
     = (Inr (JArray []),
        example_world [CACHE_PREFIX @ ''search_sad movies'' \<mapsto> ''{"data":[],"timestamp":5000250}'']
           8000000 None,
        [])\<close>
proof -
  let ?k = "Search ''Sad Movies ''"
  let ?B = "example_backend (Resolved None)"
  let ?item = \<open>''{"data":[],"timestamp":5000250}''\<close>
  let ?w2 = "example_world [CACHE_PREFIX @ ''search_sad movies'' \<mapsto> ?item] 8000000 None"
  have key: "cacheKey_of example_platform ?k = ''search_sad movies''"
    by (rule search_key_example)
  have h1: "window_defined empty_world"
    by (simp add: empty_world_simps)
  have h2: "if_cached (fst (getCachedData example_platform (cacheKey_of example_platform ?k) empty_world)) = None"
    by (simp only: empty_world_read fst_conv if_cached_None)
  have h3: "API_KEY empty_world = Some ''key''" and h4: "''key'' \<noteq> []"
    by (simp_all add: empty_world_simps)
  have h5: "?B (GoogleGenAI ''key'') (request_of ?k) = (250, Resolved None)"
    by (simp add: example_backend_simp)
  have h6: "JSON_parse example_platform (response_text None) = Some (JArray [])"
    by (simp add: example_simps)
  have h7: "JSON_stringify example_platform (envelope (JArray []) (now empty_world + 250)) = ?item"
    by (simp add: example_simps empty_world_simps)
  have h8: "?item \<noteq> []"
    by simp
  have h9: "JSON_parse example_platform ?item = Some (envelope (JArray []) (now empty_world + 250))"
    by (simp add: example_simps empty_world_simps)
  have h10: "\<not> setItem_throws example_platform
      (localStorage (snd (getCachedData example_platform (cacheKey_of example_platform ?k) empty_world)))
      (CACHE_PREFIX @ cacheKey_of example_platform ?k) ?item"
    by (simp only: example_platform_simps simp_thms)
  note T = empty_result_is_cached [where B = ?B, OF h1 h2 h3 h4 h5 h6 h7 h8 h9 h10, unfolded key]
  have "window_defined ?w2"
    and "localStorage ?w2 (CACHE_PREFIX @ ''search_sad movies'') = Some ?item"
    and "now ?w2 - (now empty_world + 250) \<le> CACHE_TTL"
    by (simp_all add: example_world_simps empty_world_simps CACHE_TTL_def)
  with T have "fetch example_platform (example_backend Rejected) ?k ?w2 = (Inr (JArray []), ?w2, [])"
    by blast
  with T show ?thesis
    by blast
qed

end
